theory Spec2Isabelle
  imports Main "HOL-Library.Sublist"
begin

section \<open>The task execution supervisor of \<open>src/bot.ts\<close>\<close>

text \<open>
  The bot keeps its whole state in module-level variables (\<open>state\<close>,
  \<open>currentProcess\<close>, \<open>outputBuffer\<close>, \<open>heartbeatInterval\<close>, \<open>quantumTimer\<close>,
  \<open>lastRequestTime\<close>) that every handler reads and writes. The embedding collects them
  in one record \<open>world\<close>, together with the parts of the environment the handlers act
  on: the state file, the secret file, the task logs, the timers that the runtime holds
  and the child processes that were spawned and signalled. Every handler is a function
  from \<open>world\<close> to \<open>world\<close> (and the reply it sends).

  Conventions of the embedding.
  \<^item> Timestamps, chat and message identifiers and counters are \<open>int\<close>: the source uses
    JavaScript numbers well inside the range where they are exact integers.
  \<^item> The numeric options of \<open>CONFIG\<close> come from \<open>parseInt\<close>; they are taken as
    integers.
  \<^item> Strings are \<open>string\<close>, the bytes of the UTF-8 encoding; the newline is
    \<open>CHR 0x0A\<close>.
  \<^item> A handler is one step: it runs to completion on one clock reading \<open>now\<close>. In
    the source a handler is an \<open>async\<close> function and other events can be handled
    while it waits at an \<open>await\<close>; the properties below that speak of runs are about
    runs in which no event is handled inside such a wait.
  \<^item> The calls of the Telegram API are taken to return. What the Telegram API answers to
    a status push is the argument \<open>delivery\<close>.
  \<^item> A handler sends its reply before it calls \<open>startExecution\<close>. When
    \<open>startExecution\<close> throws, the handler ends there with an exception nothing
    catches; the model gives the reply that was sent and the world the throw leaves, and
    does not say what becomes of the process afterwards.
  \<^item> The rendering of the status panel (\<open>buildStatusText\<close>, the keyboards) produces
    text only and is not modelled; a reply is a constructor of \<open>reply\<close>.
\<close>

subsection \<open>Types\<close>

datatype TaskStatus = Running | Paused | Completed | Stopped | Error

record TaskState =
  id_task :: string
  taskText :: string
  status :: TaskStatus
  startedAt :: int
  quantumStartedAt :: int
  chatId :: int
  statusMsgId :: "int option"
  logFilePath :: string
  lastTail :: "string list"
  continuationCount :: int

record AppState =
  unlockedUntil :: int
  currentTask :: "TaskState option"

record CONFIG =
  ALLOWED_USER_ID :: int
  WORKDIR :: string
  UNLOCK_TTL_MIN :: int
  QUANTUM_MIN :: int
  LOG_DIR :: string
  HEARTBEAT_SEC :: int
  TAIL_LINES :: int

text \<open>\<open>CONFIG.RATE_LIMIT_MS\<close> is the only option that no environment variable sets.\<close>

definition RATE_LIMIT_MS :: int where
  "RATE_LIMIT_MS = 3000"

text \<open>
  What the state file holds: nothing readable (\<open>JSON.parse\<close> or the read throws), or a
  document of type \<open>Partial<AppState>\<close>, in which each of the two fields may be absent.
\<close>

datatype stored = Corrupt | Doc "int option" "TaskState option option"

datatype signal = SIGTERM | SIGKILL

text \<open>
  The module-level variables, then the environment: \<open>disk\<close> is the state file
  (\<open>None\<close>: it does not exist), \<open>diskWritable\<close> says whether \<open>writeFileSync\<close>
  succeeds, \<open>secret\<close> is the secret file, \<open>logs\<close> maps a log path to its lines,
  \<open>activeIntervals\<close> and \<open>activeTimeouts\<close> are the timers the runtime still holds
  (a handle that is overwritten without being cleared stays there), \<open>nextTimer\<close> and
  \<open>nextPid\<close> number the timer and process objects, \<open>spawned\<close> and \<open>signalled\<close>
  record the calls of \<open>spawn\<close> (with the shell command and the working directory) and
  of \<open>kill\<close>, \<open>noticePending\<close> is the one-shot timer \<open>main\<close> arms for an
  interrupted task, and \<open>argLimit\<close> is the length of the longest command the platform
  lets \<open>spawn\<close> pass to the shell.
\<close>

record world =
  state :: AppState
  currentProcess :: "nat option"
  outputBuffer :: "string list"
  heartbeatInterval :: "nat option"
  quantumTimer :: "nat option"
  lastRequestTime :: int
  disk :: "stored option"
  diskWritable :: bool
  secret :: "string option"
  logs :: "string \<Rightarrow> string list"
  activeIntervals :: "nat set"
  activeTimeouts :: "nat set"
  nextTimer :: nat
  nextPid :: nat
  spawned :: "(nat \<times> string \<times> string) list"
  signalled :: "(nat \<times> signal) list"
  noticePending :: bool
  argLimit :: nat

text \<open>The answer of the Telegram API to a status push, as far as the bot's state sees it:
  either \<open>statusMsgId\<close> stays (the edit went through, the text was not modified, or
  nothing could be sent), or a new message was sent and its identifier is stored.\<close>

datatype delivery = Unchanged | NewMessage int

datatype keyboard = ControlPanel | PausedKeyboard string

datatype reply =
    StartInfo bool "TaskStatus option"
  | UnlockUsage | NoPasswordConfigured | UnlockedFor int | InvalidPassword
  | BotLocked
  | LockedReply | RateLimited | TaskAlready TaskStatus | RunUsage | Starting string
  | NoActiveTask | StatusPanel TaskState keyboard
  | NoPausedTask | Continuing int
  | NoTaskToStop | TaskStopped
  | NoTaskToCancel | TaskCancelled
  | NoRunningTask | NoReply
  | CbNoActiveTask | CbStatusUpdated | CbBotLocked | CbNoTaskToStop | CbStopping
  | CbNoRunningTask | CbPausing | CbBotIsLocked | CbNotFoundOrNotPaused | CbContinuing
  | CbTaskNotFound | CbEmpty
  | Ignored

subsection \<open>Strings and arrays of the runtime\<close>

text \<open>\<open>s.split(c)\<close> for a separator of one character.\<close>

fun split_on :: "char \<Rightarrow> string \<Rightarrow> string list" where
  "split_on c [] = [[]]"
| "split_on c (x # xs) =
     (if x = c then [] # split_on c xs
      else (case split_on c xs of [] \<Rightarrow> [[x]] | y # ys \<Rightarrow> (x # y) # ys))"

text \<open>\<open>xs.join(sep)\<close>.\<close>

fun join :: "string \<Rightarrow> string list \<Rightarrow> string" where
  "join sep [] = []"
| "join sep [x] = x"
| "join sep (x # y # ys) = x @ sep @ join sep (y # ys)"

text \<open>The white space of \<open>s.trim()\<close> in UTF-8: space, tab, line feed, vertical tab,
  form feed, carriage return, U+00A0, U+1680, U+2000 to U+200A, U+2028, U+2029, U+202F,
  U+205F, U+3000 and U+FEFF.\<close>

definition white_space :: "string list" where
  "white_space =
     [[CHR 0x20], [CHR 0x09], [CHR 0x0A], [CHR 0x0B], [CHR 0x0C], [CHR 0x0D],
      [CHR 0xC2, CHR 0xA0], [CHR 0xE1, CHR 0x9A, CHR 0x80],
      [CHR 0xE2, CHR 0x80, CHR 0x80], [CHR 0xE2, CHR 0x80, CHR 0x81],
      [CHR 0xE2, CHR 0x80, CHR 0x82], [CHR 0xE2, CHR 0x80, CHR 0x83],
      [CHR 0xE2, CHR 0x80, CHR 0x84], [CHR 0xE2, CHR 0x80, CHR 0x85],
      [CHR 0xE2, CHR 0x80, CHR 0x86], [CHR 0xE2, CHR 0x80, CHR 0x87],
      [CHR 0xE2, CHR 0x80, CHR 0x88], [CHR 0xE2, CHR 0x80, CHR 0x89],
      [CHR 0xE2, CHR 0x80, CHR 0x8A], [CHR 0xE2, CHR 0x80, CHR 0xA8],
      [CHR 0xE2, CHR 0x80, CHR 0xA9], [CHR 0xE2, CHR 0x80, CHR 0xAF],
      [CHR 0xE2, CHR 0x81, CHR 0x9F], [CHR 0xE3, CHR 0x80, CHR 0x80],
      [CHR 0xEF, CHR 0xBB, CHR 0xBF]]"

text \<open>Dropping from the front of a string every leading occurrence of one of the given
  byte sequences.\<close>

fun strip :: "string list \<Rightarrow> string \<Rightarrow> string" where
  "strip ps [] = []"
| "strip ps (c # s) =
     (case find (\<lambda>p. prefix p (c # s)) ps of
        None \<Rightarrow> c # s
      | Some p \<Rightarrow> strip ps (drop (length p - 1) s))"

text \<open>\<open>s.trim()\<close>: the white space is dropped at the front and, read backwards, at the
  end.\<close>

definition trim :: "string \<Rightarrow> string" where
  "trim s = rev (strip (map rev white_space) (rev (strip white_space s)))"

text \<open>\<open>xs.slice(start)\<close>: a negative \<open>start\<close> counts from the end, and both ends are
  clamped to the array.\<close>

definition slice_from :: "int \<Rightarrow> 'a list \<Rightarrow> 'a list" where
  "slice_from start xs =
     (let n = int (length xs);
          k = (if start < 0 then max (n + start) 0 else min start n)
      in drop (nat k) xs)"

text \<open>The tail of the output buffer, \<open>outputBuffer.slice(-n)\<close>.\<close>

definition tail :: "int \<Rightarrow> string list \<Rightarrow> string list" where
  "tail n buf = slice_from (- n) buf"

text \<open>\<open>ctx.message.text.split(' ').slice(1).join(' ').trim()\<close>: the argument of a
  command.\<close>

definition command_args :: "string \<Rightarrow> string" where
  "command_args text = trim (join '' '' (slice_from 1 (split_on CHR '' '' text)))"

text \<open>\<open>data.split(':')[1]\<close>; \<open>None\<close> is \<open>undefined\<close>.\<close>

definition callback_task_id :: "string \<Rightarrow> string option" where
  "callback_task_id d =
     (case split_on CHR '':'' d of _ # t # _ \<Rightarrow> Some t | _ \<Rightarrow> None)"

definition startsWith :: "string \<Rightarrow> string \<Rightarrow> bool" where
  "startsWith s p \<longleftrightarrow> take (length p) s = p"

text \<open>\<open>path.join\<close> of POSIX: the non-empty arguments are joined with a slash and the
  result is normalised (empty segments and \<open>.\<close> are dropped, \<open>..\<close> removes the segment
  before it).\<close>

definition normalizeSegment :: "bool \<Rightarrow> string list \<Rightarrow> string \<Rightarrow> string list" where
  "normalizeSegment allowAboveRoot res seg =
     (if seg = [] \<or> seg = ''.'' then res
      else if seg = ''..'' then
        (if res \<noteq> [] \<and> last res \<noteq> ''..'' then butlast res
         else if allowAboveRoot then res @ [''..'']
         else res)
      else res @ [seg])"

definition normalizeString :: "bool \<Rightarrow> string \<Rightarrow> string" where
  "normalizeString allowAboveRoot p =
     join ''/'' (foldl (normalizeSegment allowAboveRoot) [] (split_on CHR ''/'' p))"

definition normalize :: "string \<Rightarrow> string" where
  "normalize p =
     (case p of
        [] \<Rightarrow> ''.''
      | c # _ \<Rightarrow>
          (let isAbsolute = (c = CHR ''/'');
               trailingSeparator = (last p = CHR ''/'');
               q = normalizeString (\<not> isAbsolute) p
           in if q = [] then (if isAbsolute then ''/'' else if trailingSeparator then ''./'' else ''.'')
              else (if isAbsolute then ''/'' else []) @ q
                   @ (if trailingSeparator then ''/'' else [])))"

definition path_join :: "string list \<Rightarrow> string" where
  "path_join segs = normalize (join ''/'' (filter (\<lambda>s. s \<noteq> []) segs))"

subsection \<open>State persistence\<close>

definition saveState :: "world \<Rightarrow> world" where
  "saveState w =
     (if diskWritable w
      then w\<lparr>disk := Some (Doc (Some (unlockedUntil (state w))) (Some (currentTask (state w))))\<rparr>
      else w)"

text \<open>\<open>state.currentTask.f = v\<close>, with the check \<open>state.currentTask\<close> that guards it at
  each use in the source.\<close>

definition update_task :: "(TaskState \<Rightarrow> TaskState) \<Rightarrow> world \<Rightarrow> world" where
  "update_task f w = w\<lparr>state := (state w)\<lparr>currentTask := map_option f (currentTask (state w))\<rparr>\<rparr>"

definition set_task :: "TaskState option \<Rightarrow> world \<Rightarrow> world" where
  "set_task t w = w\<lparr>state := (state w)\<lparr>currentTask := t\<rparr>\<rparr>"

definition task_status :: "world \<Rightarrow> TaskStatus option" where
  "task_status w = map_option status (currentTask (state w))"

text \<open>\<open>state = { ...state, ...loaded }\<close>: a field of the document replaces the field
  of the state, an absent one leaves it.\<close>

definition merge_loaded :: "AppState \<Rightarrow> int option \<Rightarrow> TaskState option option \<Rightarrow> AppState" where
  "merge_loaded s u t =
     \<lparr>unlockedUntil = (case u of None \<Rightarrow> unlockedUntil s | Some v \<Rightarrow> v),
      currentTask = (case t of None \<Rightarrow> currentTask s | Some v \<Rightarrow> v)\<rparr>"

definition loadState :: "world \<Rightarrow> world" where
  "loadState w =
     (case disk w of
        None \<Rightarrow> w
      | Some Corrupt \<Rightarrow> w
      | Some (Doc u t) \<Rightarrow>
          (let w1 = w\<lparr>state := merge_loaded (state w) u t\<rparr>
           in if task_status w1 = Some Running
              then saveState (update_task (\<lambda>t. t\<lparr>status := Paused\<rparr>) w1)
              else w1))"

subsection \<open>Security helpers\<close>

definition isAllowedUser :: "CONFIG \<Rightarrow> int \<Rightarrow> bool \<Rightarrow> bool" where
  "isAllowedUser cfg userId private \<longleftrightarrow> userId = ALLOWED_USER_ID cfg \<and> private"

definition isUnlocked :: "int \<Rightarrow> world \<Rightarrow> bool" where
  "isUnlocked now w \<longleftrightarrow> now < unlockedUntil (state w)"

definition getStoredPassword :: "world \<Rightarrow> string option" where
  "getStoredPassword w = map_option trim (secret w)"

text \<open>\<open>rateLimitCheck\<close> returns its verdict and stores the time of a request it lets
  through.\<close>

definition rateLimitCheck :: "int \<Rightarrow> world \<Rightarrow> bool \<times> world" where
  "rateLimitCheck now w =
     (if now - lastRequestTime w < RATE_LIMIT_MS then (False, w)
      else (True, w\<lparr>lastRequestTime := now\<rparr>))"

subsection \<open>Status push\<close>

text \<open>\<open>sendOrEditStatusMessage\<close>: without a task nothing happens; when a new message
  was sent its identifier is stored in the task and the state is saved.\<close>

definition sendOrEditStatusMessage :: "delivery \<Rightarrow> world \<Rightarrow> world" where
  "sendOrEditStatusMessage d w =
     (case currentTask (state w) of
        None \<Rightarrow> w
      | Some _ \<Rightarrow>
          (case d of
             Unchanged \<Rightarrow> w
           | NewMessage m \<Rightarrow> saveState (update_task (\<lambda>t. t\<lparr>statusMsgId := Some m\<rparr>) w)))"

subsection \<open>Execution engine\<close>

text \<open>\<open>appendToLog\<close>; a failing \<open>appendFileSync\<close> is caught and leaves the log as it
  is.\<close>

definition appendToLog :: "string \<Rightarrow> world \<Rightarrow> world" where
  "appendToLog line w =
     (case currentTask (state w) of
        None \<Rightarrow> w
      | Some t \<Rightarrow>
          (if diskWritable w
           then w\<lparr>logs := (logs w)(logFilePath t := logs w (logFilePath t) @ [line])\<rparr>
           else w))"

definition newline :: string where
  "newline = [CHR 0x0A]"

definition fence :: string where
  "fence = [CHR 0x60, CHR 0x60, CHR 0x60]"

definition buildContinuationPrompt :: "CONFIG \<Rightarrow> TaskState \<Rightarrow> string" where
  "buildContinuationPrompt cfg task =
     (let tailText = join newline (slice_from (- 20) (lastTail task))
      in join newline
        [''CONTINUATION PROMPT - Task was paused due to time limit.'',
         [],
         ''Original task: '' @ taskText task,
         [],
         ''Working directory: '' @ WORKDIR cfg,
         [],
         ''Last output before pause:'',
         fence,
         tailText,
         fence,
         [],
         ''Please continue the task from where it left off. Maintain consistency with previous work.''])"

text \<open>\<open>prompt.replace(/'/g, "'\\''")\<close>: every single quote becomes the four characters
  quote, backslash, quote, quote.\<close>

definition escapePrompt :: "string \<Rightarrow> string" where
  "escapePrompt p =
     concat (map (\<lambda>c. if c = CHR 0x27 then [CHR 0x27, CHR 0x5C, CHR 0x27, CHR 0x27] else [c]) p)"

definition shellCommand :: "string \<Rightarrow> string" where
  "shellCommand prompt = ''claude -p '' @ [CHR 0x27] @ escapePrompt prompt @ [CHR 0x27] @ '' 2>&1''"

definition startTimers :: "world \<Rightarrow> world" where
  "startTimers w =
     w\<lparr>heartbeatInterval := Some (nextTimer w),
       quantumTimer := Some (Suc (nextTimer w)),
       activeIntervals := insert (nextTimer w) (activeIntervals w),
       activeTimeouts := insert (Suc (nextTimer w)) (activeTimeouts w),
       nextTimer := Suc (Suc (nextTimer w))\<rparr>"

definition stopTimers :: "world \<Rightarrow> world" where
  "stopTimers w =
     (let w1 = (case heartbeatInterval w of
                  None \<Rightarrow> w
                | Some h \<Rightarrow> w\<lparr>activeIntervals := activeIntervals w - {h},
                              heartbeatInterval := None\<rparr>)
      in (case quantumTimer w1 of
            None \<Rightarrow> w1
          | Some q \<Rightarrow> w1\<lparr>activeTimeouts := activeTimeouts w1 - {q},
                         quantumTimer := None\<rparr>))"

text \<open>\<open>if (currentProcess) { currentProcess.kill(sig); currentProcess = null; }\<close>\<close>

definition killCurrent :: "signal \<Rightarrow> world \<Rightarrow> world" where
  "killCurrent sig w =
     (case currentProcess w of
        None \<Rightarrow> w
      | Some p \<Rightarrow> w\<lparr>signalled := signalled w @ [(p, sig)], currentProcess := None\<rparr>)"

text \<open>\<open>spawn\<close> throws, before any process exists, when the command holds a NUL
  character or is longer than the platform accepts.\<close>

definition spawnThrows :: "world \<Rightarrow> string \<Rightarrow> bool" where
  "spawnThrows w command \<longleftrightarrow> CHR 0x00 \<in> set command \<or> argLimit w < length command"

text \<open>\<open>startExecution\<close>, up to and including the first status push. \<open>Inr\<close> is the
  world it leaves when it returns, \<open>Inl\<close> the world it leaves when it throws: the source
  reads \<open>state.currentTask!\<close>, so without a task the assignment to \<open>task.status\<close>
  throws; and no \<open>try\<close> surrounds \<open>spawn\<close>, so when \<open>spawn\<close> throws the status is
  already \<open>running\<close> and saved, the buffer is empty, \<open>currentProcess\<close> is what it was
  and no timer is started.\<close>

definition startExecution :: "CONFIG \<Rightarrow> int \<Rightarrow> delivery \<Rightarrow> string \<Rightarrow> bool \<Rightarrow> world \<Rightarrow> world + world" where
  "startExecution cfg now d text isResume w =
     (case currentTask (state w) of
        None \<Rightarrow> Inl w
      | Some t \<Rightarrow>
          (let task = t\<lparr>status := Running, quantumStartedAt := now\<rparr>;
               w1 = saveState (set_task (Some task) w);
               w2 = w1\<lparr>outputBuffer := []\<rparr>;
               prompt = (if isResume then buildContinuationPrompt cfg task else text)
           in if spawnThrows w2 (shellCommand prompt) then Inl w2
              else (let w3 = w2\<lparr>currentProcess := Some (nextPid w2),
                              spawned := spawned w2 @ [(nextPid w2, shellCommand prompt, WORKDIR cfg)],
                              nextPid := Suc (nextPid w2)\<rparr>;
                        w4 = startTimers w3
                    in Inr (sendOrEditStatusMessage d w4))))"

text \<open>The world a call leaves, whether it returned or threw.\<close>

definition settled :: "world + world \<Rightarrow> world" where
  "settled r = (case r of Inl w \<Rightarrow> w | Inr w \<Rightarrow> w)"

text \<open>The listener of \<open>stdout\<close>: every non-empty line of the chunk is pushed and logged,
  then the buffer is cut back to its last 500 lines if it holds more than 1000.\<close>

definition pushLine :: "string \<Rightarrow> world \<Rightarrow> world" where
  "pushLine line w = appendToLog line (w\<lparr>outputBuffer := outputBuffer w @ [line]\<rparr>)"

definition on_stdout_data :: "string \<Rightarrow> world \<Rightarrow> world" where
  "on_stdout_data text w =
     (let w1 = foldl (\<lambda>v line. if line \<noteq> [] then pushLine line v else v) w (split_on CHR 0x0A text)
      in if length (outputBuffer w1) > 1000
         then w1\<lparr>outputBuffer := slice_from (- 500) (outputBuffer w1)\<rparr>
         else w1)"

text \<open>The listener of \<open>stderr\<close>: every non-empty line is pushed and logged with the
  marker \<open>[ERR]\<close>; the source has no cut here.\<close>

definition on_stderr_data :: "string \<Rightarrow> world \<Rightarrow> world" where
  "on_stderr_data text w =
     foldl (\<lambda>v line. if line \<noteq> [] then pushLine (''[ERR] '' @ line) v else v) w
       (split_on CHR 0x0A text)"

text \<open>The two listeners of \<open>error\<close>, in the order they are registered: the first pushes
  the message, the second drops the process handle, stops the timers and marks the task.\<close>

definition on_error :: "string \<Rightarrow> delivery \<Rightarrow> world \<Rightarrow> world" where
  "on_error msg d w =
     (let w1 = w\<lparr>outputBuffer := outputBuffer w @ [''[SPAWN ERROR] '' @ msg]\<rparr>;
          w2 = stopTimers (w1\<lparr>currentProcess := None\<rparr>)
      in (case currentTask (state w2) of
            None \<Rightarrow> w2
          | Some _ \<Rightarrow>
              sendOrEditStatusMessage d
                (saveState (update_task (\<lambda>t. t\<lparr>status := Error\<rparr>) w2))))"

text \<open>The listener of \<open>close\<close>; \<open>code\<close> is \<open>None\<close> for \<open>null\<close> (the process died of a
  signal).\<close>

definition on_close :: "CONFIG \<Rightarrow> int option \<Rightarrow> delivery \<Rightarrow> world \<Rightarrow> world" where
  "on_close cfg code d w =
     (let w1 = stopTimers (w\<lparr>currentProcess := None\<rparr>)
      in if task_status w1 = Some Running
         then sendOrEditStatusMessage d
                (saveState
                  (update_task
                    (\<lambda>t. t\<lparr>status := (if code = Some 0 then Completed else Error),
                           lastTail := tail (TAIL_LINES cfg) (outputBuffer w1)\<rparr>) w1))
         else w1)"

definition pauseForQuantumTimeout :: "CONFIG \<Rightarrow> delivery \<Rightarrow> world \<Rightarrow> world" where
  "pauseForQuantumTimeout cfg d w =
     (let w1 = killCurrent SIGTERM (stopTimers w)
      in (case currentTask (state w1) of
            None \<Rightarrow> w1
          | Some _ \<Rightarrow>
              sendOrEditStatusMessage d
                (saveState
                  (update_task
                    (\<lambda>t. t\<lparr>status := Paused,
                           lastTail := tail (TAIL_LINES cfg) (outputBuffer w1)\<rparr>) w1))))"

definition stopCurrentTask :: "CONFIG \<Rightarrow> delivery \<Rightarrow> world \<Rightarrow> world" where
  "stopCurrentTask cfg d w =
     (let w1 = killCurrent SIGTERM (stopTimers w)
      in (case currentTask (state w1) of
            None \<Rightarrow> w1
          | Some _ \<Rightarrow>
              saveState
                (set_task None
                  (sendOrEditStatusMessage d
                    (saveState
                      (update_task
                        (\<lambda>t. t\<lparr>status := Stopped,
                               lastTail := tail (TAIL_LINES cfg) (outputBuffer w1)\<rparr>) w1))))))"

definition pauseCurrentTask :: "CONFIG \<Rightarrow> delivery \<Rightarrow> world \<Rightarrow> world" where
  "pauseCurrentTask cfg d w =
     (let w1 = killCurrent SIGTERM (stopTimers w)
      in (case currentTask (state w1) of
            None \<Rightarrow> w1
          | Some _ \<Rightarrow>
              sendOrEditStatusMessage d
                (saveState
                  (update_task
                    (\<lambda>t. t\<lparr>status := Paused,
                           lastTail := tail (TAIL_LINES cfg) (outputBuffer w1)\<rparr>) w1))))"

text \<open>The callback of the heartbeat interval.\<close>

definition heartbeat :: "delivery \<Rightarrow> world \<Rightarrow> world" where
  "heartbeat d w = (if task_status w = Some Running then sendOrEditStatusMessage d w else w)"

subsection \<open>Commands\<close>

text \<open>Each handler takes the clock reading \<open>now\<close> and returns the reply it sends with
  the world it leaves. \<open>active t\<close> is the test
  \<open>status === 'running' || status === 'paused'\<close> of \<open>/run\<close>.\<close>

definition active :: "TaskState \<Rightarrow> bool" where
  "active t \<longleftrightarrow> status t = Running \<or> status t = Paused"

definition cmd_start :: "int \<Rightarrow> world \<Rightarrow> reply \<times> world" where
  "cmd_start now w = (StartInfo (isUnlocked now w) (task_status w), w)"

definition cmd_unlock :: "CONFIG \<Rightarrow> int \<Rightarrow> string \<Rightarrow> world \<Rightarrow> reply \<times> world" where
  "cmd_unlock cfg now text w =
     (let args = command_args text
      in if args = [] then (UnlockUsage, w)
         else (case getStoredPassword w of
                 None \<Rightarrow> (NoPasswordConfigured, w)
               | Some pw \<Rightarrow>
                   (if pw = [] then (NoPasswordConfigured, w)
                    else if args = pw
                    then (UnlockedFor (UNLOCK_TTL_MIN cfg),
                          saveState (w\<lparr>state := (state w)\<lparr>unlockedUntil :=
                             now + UNLOCK_TTL_MIN cfg * 60 * 1000\<rparr>\<rparr>))
                    else (InvalidPassword, w))))"

definition cmd_lock :: "world \<Rightarrow> reply \<times> world" where
  "cmd_lock w = (BotLocked, saveState (w\<lparr>state := (state w)\<lparr>unlockedUntil := 0\<rparr>\<rparr>))"

text \<open>\<open>/run\<close>: the access gate, the rate limit, the test for an active task and the test for an
  empty description, in this order; then the task is created and the first burst starts.
  \<open>uuid\<close> is the value of \<open>randomUUID()\<close> and \<open>chat\<close> the identifier of the chat.\<close>

definition newTask :: "CONFIG \<Rightarrow> int \<Rightarrow> string \<Rightarrow> int \<Rightarrow> string \<Rightarrow> TaskState" where
  "newTask cfg now uuid chat description =
     \<lparr>id_task = uuid,
      taskText = description,
      status = Running,
      startedAt = now,
      quantumStartedAt = now,
      chatId = chat,
      statusMsgId = None,
      logFilePath = path_join [LOG_DIR cfg, ''task-'' @ uuid @ ''.log''],
      lastTail = [],
      continuationCount = 0\<rparr>"

text \<open>The rest of \<open>/run\<close> once its guards have passed; the creation of the log
  directory is taken to succeed. The reply goes out before \<open>startExecution\<close> is
  called.\<close>

definition createTask :: "CONFIG \<Rightarrow> int \<Rightarrow> delivery \<Rightarrow> string \<Rightarrow> int \<Rightarrow> string \<Rightarrow> world \<Rightarrow> reply \<times> world" where
  "createTask cfg now d uuid chat text w =
     (let description = command_args text
      in if description = [] then (RunUsage, w)
         else (let w2 = saveState (set_task (Some (newTask cfg now uuid chat description)) w)
               in (Starting description,
                   settled (startExecution cfg now d description False w2))))"

definition cmd_run :: "CONFIG \<Rightarrow> int \<Rightarrow> delivery \<Rightarrow> string \<Rightarrow> int \<Rightarrow> string \<Rightarrow> world \<Rightarrow> reply \<times> world" where
  "cmd_run cfg now d uuid chat text w =
     (if \<not> isUnlocked now w then (LockedReply, w)
      else (case rateLimitCheck now w of
              (False, w1) \<Rightarrow> (RateLimited, w1)
            | (True, w1) \<Rightarrow>
                (case currentTask (state w1) of
                   None \<Rightarrow> createTask cfg now d uuid chat text w1
                 | Some t \<Rightarrow>
                     (if active t then (TaskAlready (status t), w1)
                      else createTask cfg now d uuid chat text w1))))"

definition cmd_status :: "world \<Rightarrow> reply \<times> world" where
  "cmd_status w =
     (case currentTask (state w) of
        None \<Rightarrow> (NoActiveTask, w)
      | Some t \<Rightarrow>
          (StatusPanel t (if status t = Paused then PausedKeyboard (id_task t) else ControlPanel), w))"

text \<open>The part \<open>/continue\<close> and the button \<open>CONTINUE\<close> share once their guards have
  passed: \<open>continuationCount++\<close>, \<open>saveState()\<close>, the reply \<open>ok\<close>, then
  \<open>startExecution\<close> with \<open>isResume = true\<close>.\<close>

definition resume :: "CONFIG \<Rightarrow> int \<Rightarrow> delivery \<Rightarrow> TaskState \<Rightarrow> reply \<Rightarrow> world \<Rightarrow> reply \<times> world" where
  "resume cfg now d t ok w =
     (let w1 = saveState (update_task (\<lambda>t. t\<lparr>continuationCount := continuationCount t + 1\<rparr>) w)
      in (ok, settled (startExecution cfg now d (taskText t) True w1)))"

definition cmd_continue :: "CONFIG \<Rightarrow> int \<Rightarrow> delivery \<Rightarrow> world \<Rightarrow> reply \<times> world" where
  "cmd_continue cfg now d w =
     (if \<not> isUnlocked now w then (LockedReply, w)
      else (case currentTask (state w) of
              None \<Rightarrow> (NoPausedTask, w)
            | Some t \<Rightarrow>
                (if status t \<noteq> Paused then (NoPausedTask, w)
                 else resume cfg now d t (Continuing (continuationCount t + 1)) w)))"

definition cmd_stop :: "CONFIG \<Rightarrow> delivery \<Rightarrow> world \<Rightarrow> reply \<times> world" where
  "cmd_stop cfg d w =
     (case currentTask (state w) of
        None \<Rightarrow> (NoTaskToStop, w)
      | Some _ \<Rightarrow> (TaskStopped, stopCurrentTask cfg d w))"

definition cmd_cancel :: "world \<Rightarrow> reply \<times> world" where
  "cmd_cancel w =
     (case currentTask (state w) of
        None \<Rightarrow> (NoTaskToCancel, w)
      | Some _ \<Rightarrow>
          (let w1 = killCurrent SIGKILL (stopTimers w);
               w2 = saveState (update_task (\<lambda>t. t\<lparr>status := Stopped\<rparr>) w1)
           in (TaskCancelled, saveState (set_task None w2))))"

definition cmd_pause :: "CONFIG \<Rightarrow> delivery \<Rightarrow> world \<Rightarrow> reply \<times> world" where
  "cmd_pause cfg d w =
     (if task_status w \<noteq> Some Running then (NoRunningTask, w)
      else (NoReply, pauseCurrentTask cfg d w))"

subsection \<open>Callback queries\<close>

text \<open>The handler of the inline buttons; \<open>userId\<close> is \<open>query.from.id\<close> and \<open>dat\<close> is
  \<open>query.data\<close> (a query without data is dropped before any test). The tests follow
  the order of the source.\<close>

definition callback_query :: "CONFIG \<Rightarrow> int \<Rightarrow> delivery \<Rightarrow> int \<Rightarrow> string \<Rightarrow> world \<Rightarrow> reply \<times> world" where
  "callback_query cfg now d userId dat w =
     (if userId \<noteq> ALLOWED_USER_ID cfg then (Ignored, w)
      else if dat = ''STATUS'' then
        (case currentTask (state w) of
           None \<Rightarrow> (CbNoActiveTask, w)
         | Some _ \<Rightarrow> (CbStatusUpdated, sendOrEditStatusMessage d w))
      else if dat = ''LOCK'' then
        (CbBotLocked, saveState (w\<lparr>state := (state w)\<lparr>unlockedUntil := 0\<rparr>\<rparr>))
      else if dat = ''STOP_PANEL'' then
        (case currentTask (state w) of
           None \<Rightarrow> (CbNoTaskToStop, w)
         | Some _ \<Rightarrow> (CbStopping, stopCurrentTask cfg d w))
      else if dat = ''PAUSE'' then
        (if task_status w \<noteq> Some Running then (CbNoRunningTask, w)
         else (CbPausing, pauseCurrentTask cfg d w))
      else if startsWith dat ''CONTINUE:'' then
        (if \<not> isUnlocked now w then (CbBotIsLocked, w)
         else (case currentTask (state w) of
                 None \<Rightarrow> (CbNotFoundOrNotPaused, w)
               | Some t \<Rightarrow>
                   (if Some (id_task t) \<noteq> callback_task_id dat \<or> status t \<noteq> Paused
                    then (CbNotFoundOrNotPaused, w)
                    else resume cfg now d t CbContinuing w)))
      else if startsWith dat ''STOP:'' then
        (case currentTask (state w) of
           None \<Rightarrow> (CbTaskNotFound, w)
         | Some t \<Rightarrow>
             (if Some (id_task t) \<noteq> callback_task_id dat then (CbTaskNotFound, w)
              else (CbStopping, stopCurrentTask cfg d w)))
      else (CbEmpty, w))"

subsection \<open>Startup and shutdown\<close>

text \<open>The values of the module-level variables when the process starts; the files
  are those the earlier process left.\<close>

definition boot :: "world \<Rightarrow> world" where
  "boot w =
     \<lparr>state = \<lparr>unlockedUntil = 0, currentTask = None\<rparr>,
      currentProcess = None,
      outputBuffer = [],
      heartbeatInterval = None,
      quantumTimer = None,
      lastRequestTime = 0,
      disk = disk w,
      diskWritable = diskWritable w,
      secret = secret w,
      logs = logs w,
      activeIntervals = {},
      activeTimeouts = {},
      nextTimer = 0,
      nextPid = 0,
      spawned = [],
      signalled = [],
      noticePending = False,
      argLimit = argLimit w\<rparr>"

text \<open>\<open>main\<close> up to \<open>bot.launch()\<close>: \<open>loadState()\<close> comes first, then the default
  secret file is written if there is none, then the notice for an interrupted task is
  armed. A failing write of the secret file ends \<open>main\<close> there.\<close>

definition main :: "world \<Rightarrow> world" where
  "main w =
     (let w1 = loadState w
      in if secret w1 = None \<and> \<not> diskWritable w1 then w1
         else (let w2 = (if secret w1 = None then w1\<lparr>secret := Some ''changeme''\<rparr> else w1)
               in w2\<lparr>noticePending := (task_status w2 = Some Paused)\<rparr>))"

text \<open>What a restart of the process after a crash computes.\<close>

definition restart :: "world \<Rightarrow> world" where
  "restart w = main (boot w)"

text \<open>The notice: without a task the body throws inside its \<open>try\<close>; so it does when
  the message cannot be sent.\<close>

definition on_notice :: "delivery \<Rightarrow> world \<Rightarrow> world" where
  "on_notice d w =
     (case currentTask (state w) of
        None \<Rightarrow> w
      | Some _ \<Rightarrow>
          (case d of
             Unchanged \<Rightarrow> w
           | NewMessage m \<Rightarrow> saveState (update_task (\<lambda>t. t\<lparr>statusMsgId := Some m\<rparr>) w)))"

text \<open>The handlers of \<open>SIGINT\<close> and \<open>SIGTERM\<close>: the process is signalled, its handle is
  kept.\<close>

definition on_shutdown :: "world \<Rightarrow> world" where
  "on_shutdown w =
     (let w1 = stopTimers w;
          w2 = (case currentProcess w1 of
                  None \<Rightarrow> w1
                | Some p \<Rightarrow> w1\<lparr>signalled := signalled w1 @ [(p, SIGTERM)]\<rparr>)
      in saveState w2)"

subsection \<open>The event loop\<close>

text \<open>What accompanies an event: the clock, the answer of the Telegram API to a status
  push made by the handler and, for an update, its sender, the kind of chat, the chat
  and the value \<open>randomUUID()\<close> would return.\<close>

record env =
  at_time :: int
  pushed :: delivery
  from_id :: int
  chat_private :: bool
  chat_id :: int
  fresh_uuid :: string

datatype event =
    CmdStart | CmdUnlock string | CmdLock | CmdRun string | CmdStatus | CmdContinue
  | CmdStop | CmdCancel | CmdPause
  | CallbackQuery string
  | StdoutData string | StderrData string | ProcError string | ProcClose "int option"
  | HeartbeatTick nat | QuantumExpiry nat
  | Notice | Shutdown | DiskFault bool

text \<open>An update reaches its handler through the middleware, which drops the updates
  of other users. A timer fires only while the runtime holds it; the quantum timer is
  one-shot.\<close>

definition handle :: "CONFIG \<Rightarrow> env \<Rightarrow> event \<Rightarrow> world \<Rightarrow> reply \<times> world" where
  "handle cfg e ev w =
     (let now = at_time e; d = pushed e;
          allowed = isAllowedUser cfg (from_id e) (chat_private e)
      in (case ev of
            CmdStart \<Rightarrow> if allowed then cmd_start now w else (Ignored, w)
          | CmdUnlock text \<Rightarrow> if allowed then cmd_unlock cfg now text w else (Ignored, w)
          | CmdLock \<Rightarrow> if allowed then cmd_lock w else (Ignored, w)
          | CmdRun text \<Rightarrow>
              if allowed then cmd_run cfg now d (fresh_uuid e) (chat_id e) text w
              else (Ignored, w)
          | CmdStatus \<Rightarrow> if allowed then cmd_status w else (Ignored, w)
          | CmdContinue \<Rightarrow> if allowed then cmd_continue cfg now d w else (Ignored, w)
          | CmdStop \<Rightarrow> if allowed then cmd_stop cfg d w else (Ignored, w)
          | CmdCancel \<Rightarrow> if allowed then cmd_cancel w else (Ignored, w)
          | CmdPause \<Rightarrow> if allowed then cmd_pause cfg d w else (Ignored, w)
          | CallbackQuery dat \<Rightarrow>
              if allowed then callback_query cfg now d (from_id e) dat w else (Ignored, w)
          | StdoutData text \<Rightarrow> (NoReply, on_stdout_data text w)
          | StderrData text \<Rightarrow> (NoReply, on_stderr_data text w)
          | ProcError msg \<Rightarrow> (NoReply, on_error msg d w)
          | ProcClose code \<Rightarrow> (NoReply, on_close cfg code d w)
          | HeartbeatTick n \<Rightarrow>
              (NoReply, if n \<in> activeIntervals w then heartbeat d w else w)
          | QuantumExpiry n \<Rightarrow>
              (NoReply,
               if n \<in> activeTimeouts w
               then pauseForQuantumTimeout cfg d (w\<lparr>activeTimeouts := activeTimeouts w - {n}\<rparr>)
               else w)
          | Notice \<Rightarrow>
              (NoReply,
               if noticePending w then on_notice d (w\<lparr>noticePending := False\<rparr>) else w)
          | Shutdown \<Rightarrow> (NoReply, on_shutdown w)
          | DiskFault b \<Rightarrow> (NoReply, w\<lparr>diskWritable := \<not> b\<rparr>)))"

definition step :: "CONFIG \<Rightarrow> env \<times> event \<Rightarrow> world \<Rightarrow> world" where
  "step cfg x w = snd (handle cfg (fst x) (snd x) w)"

text \<open>The events of a run are handled one after the other.\<close>

fun run :: "CONFIG \<Rightarrow> (env \<times> event) list \<Rightarrow> world \<Rightarrow> world" where
  "run cfg [] w = w"
| "run cfg (x # xs) w = run cfg xs (step cfg x w)"

subsection \<open>Predicates and observations used by the properties\<close>

text \<open>The timers the runtime holds are exactly the two handles, a handle is set only
  while the task runs, and every timer was numbered before \<open>nextTimer\<close>.\<close>

definition timers_sound :: "world \<Rightarrow> bool" where
  "timers_sound w \<longleftrightarrow>
     activeIntervals w = set_option (heartbeatInterval w) \<and>
     activeTimeouts w = set_option (quantumTimer w) \<and>
     ((heartbeatInterval w \<noteq> None \<or> quantumTimer w \<noteq> None) \<longrightarrow> task_status w = Some Running) \<and>
     (\<forall>n \<in> activeIntervals w \<union> activeTimeouts w. n < nextTimer w)"

text \<open>No timer is set and the runtime holds none.\<close>

definition quiet :: "world \<Rightarrow> bool" where
  "quiet w \<longleftrightarrow> heartbeatInterval w = None \<and> quantumTimer w = None
     \<and> activeIntervals w = {} \<and> activeTimeouts w = {}"

text \<open>From \<open>w\<close> to \<open>v\<close> timers were cancelled or created, and every timer that \<open>v\<close>
  holds beyond those of \<open>w\<close> was numbered from \<open>nextTimer w\<close> on.\<close>

definition only_fresh :: "world \<Rightarrow> world \<Rightarrow> bool" where
  "only_fresh w v \<longleftrightarrow>
     nextTimer w \<le> nextTimer v \<and>
     activeIntervals v \<subseteq> activeIntervals w \<union> {n. nextTimer w \<le> n} \<and>
     activeTimeouts v \<subseteq> activeTimeouts w \<union> {n. nextTimer w \<le> n}"

text \<open>Setting the access gate, and the world with the access gate blanked out (in the state and in
  the state file).\<close>

definition relock :: "int \<Rightarrow> world \<Rightarrow> world" where
  "relock u w = w\<lparr>state := (state w)\<lparr>unlockedUntil := u\<rparr>\<rparr>"

definition disk_blind :: "stored option \<Rightarrow> stored option" where
  "disk_blind x = map_option (\<lambda>s. case s of Corrupt \<Rightarrow> Corrupt | Doc u t \<Rightarrow> Doc None t) x"

definition gate_blind :: "world \<Rightarrow> world" where
  "gate_blind w = w\<lparr>state := (state w)\<lparr>unlockedUntil := 0\<rparr>, disk := disk_blind (disk w)\<rparr>"

text \<open>The safety operations: \<open>/pause\<close>, \<open>/stop\<close>, \<open>/cancel\<close>, \<open>/status\<close> and the
  buttons that do the same.\<close>

fun safety_operation :: "event \<Rightarrow> bool" where
  "safety_operation CmdPause = True"
| "safety_operation CmdStop = True"
| "safety_operation CmdCancel = True"
| "safety_operation CmdStatus = True"
| "safety_operation (CallbackQuery dat) =
     (dat = ''STATUS'' \<or> dat = ''STOP_PANEL'' \<or> dat = ''PAUSE'' \<or> startsWith dat ''STOP:'')"
| "safety_operation _ = False"

text \<open>Replies that report an accepted \<open>continue\<close>, and an accepted \<open>start\<close>.\<close>

fun continued :: "reply \<Rightarrow> bool" where
  "continued (Continuing _) = True"
| "continued CbContinuing = True"
| "continued _ = False"

fun started :: "reply \<Rightarrow> bool" where
  "started (Starting _) = True"
| "started _ = False"

text \<open>The identifier and the continuation count of the task, if there is one.\<close>

definition count_of :: "world \<Rightarrow> (string \<times> int) option" where
  "count_of w = map_option (\<lambda>t. (id_task t, continuationCount t)) (currentTask (state w))"

text \<open>Along a run: the number of accepted \<open>continue\<close> operations, and whether the
  task is kept (no event of the run removes it or replaces it by a new one).\<close>

fun continues :: "CONFIG \<Rightarrow> (env \<times> event) list \<Rightarrow> world \<Rightarrow> nat" where
  "continues cfg [] w = 0"
| "continues cfg (x # xs) w =
     (if continued (fst (handle cfg (fst x) (snd x) w)) then 1 else 0)
     + continues cfg xs (step cfg x w)"

fun task_kept :: "CONFIG \<Rightarrow> (env \<times> event) list \<Rightarrow> world \<Rightarrow> bool" where
  "task_kept cfg [] w = True"
| "task_kept cfg (x # xs) w =
     (\<not> started (fst (handle cfg (fst x) (snd x) w))
      \<and> currentTask (state (step cfg x w)) \<noteq> None
      \<and> task_kept cfg xs (step cfg x w))"

fun is_run :: "event \<Rightarrow> bool" where
  "is_run (CmdRun _) = True"
| "is_run _ = False"

subsection \<open>Sample configuration, worlds and events\<close>

definition cfg0 :: CONFIG where
  "cfg0 = \<lparr>ALLOWED_USER_ID = 42, WORKDIR = ''/work'', UNLOCK_TTL_MIN = 10, QUANTUM_MIN = 10,
           LOG_DIR = ''logs'', HEARTBEAT_SEC = 25, TAIL_LINES = 20\<rparr>"

definition task0 :: TaskState where
  "task0 = \<lparr>id_task = ''t1'', taskText = ''build'', status = Running, startedAt = 1000,
            quantumStartedAt = 1000, chatId = 42, statusMsgId = None,
            logFilePath = ''logs/task-t1.log'', lastTail = [], continuationCount = 0\<rparr>"

text \<open>A machine without files that lets \<open>spawn\<close> take commands of up to 131072
  bytes, and the operator's update at a given time.\<close>

definition blank :: world where
  "blank = \<lparr>state = \<lparr>unlockedUntil = 0, currentTask = None\<rparr>, currentProcess = None,
            outputBuffer = [], heartbeatInterval = None, quantumTimer = None,
            lastRequestTime = 0, disk = None, diskWritable = True, secret = None,
            logs = (\<lambda>_. []), activeIntervals = {}, activeTimeouts = {}, nextTimer = 0,
            nextPid = 0, spawned = [], signalled = [], noticePending = False,
            argLimit = 131072\<rparr>"

definition operator_at :: "int \<Rightarrow> env" where
  "operator_at t = \<lparr>at_time = t, pushed = Unchanged, from_id = 42, chat_private = True,
                    chat_id = 42, fresh_uuid = ''t1''\<rparr>"

text \<open>A machine whose state file was written while \<open>task0\<close> was running.\<close>

definition crashed :: world where
  "crashed = blank\<lparr>disk := Some (Doc (Some 900000) (Some (Some task0)))\<rparr>"

text \<open>The restarted bot after the operator's \<open>/continue\<close> at time 2000.\<close>

definition resumed :: world where
  "resumed = run cfg0 [(operator_at 2000, CmdContinue)] (restart crashed)"

text \<open>The bot unlocked until time 900000, without a task.\<close>

definition unlocked_idle :: world where
  "unlocked_idle = blank\<lparr>state := \<lparr>unlockedUntil = 900000, currentTask = None\<rparr>\<rparr>"

text \<open>The bot with \<open>task0\<close> in a given status: locked, and unlocked until time 900000.\<close>

definition locked_with :: "TaskStatus \<Rightarrow> world" where
  "locked_with s = blank\<lparr>state := \<lparr>unlockedUntil = 0, currentTask = Some (task0\<lparr>status := s\<rparr>)\<rparr>\<rparr>"

definition unlocked_with :: "TaskStatus \<Rightarrow> world" where
  "unlocked_with s =
     blank\<lparr>state := \<lparr>unlockedUntil = 900000, currentTask = Some (task0\<lparr>status := s\<rparr>)\<rparr>\<rparr>"

text \<open>A burst after the restart: \<open>/continue\<close> at time 2000, one chunk of output, and
  \<open>/pause\<close> at time 3000.\<close>

definition burst_with :: "string \<Rightarrow> (env \<times> event) list" where
  "burst_with out =
     [(operator_at 2000, CmdContinue), (operator_at 2500, StdoutData out), (operator_at 3000, CmdPause)]"

text \<open>The bot after such a burst whose process wrote the line \<open>ok\<close>, and after one whose
  process wrote the line \<open>ok\<close> and a NUL character, as binary output has it.\<close>

definition paused_ok :: world where
  "paused_ok = run cfg0 (burst_with ''ok'') (restart crashed)"

definition paused_nul :: world where
  "paused_nul = run cfg0 (burst_with (''ok'' @ [CHR 0x0A, CHR 0x00])) (restart crashed)"


text \<open>A paused task with two lines of last tail, one of them with a single quote, and an
  output buffer that still holds a line.\<close>

definition paused_talk :: world where
  "paused_talk =
     blank\<lparr>state := \<lparr>unlockedUntil = 900000,
                       currentTask = Some (task0\<lparr>status := Paused,
                                                 lastTail := [''it'' @ [CHR 0x27] @ ''s'', ''done'']\<rparr>)\<rparr>,
           outputBuffer := [''old'']\<rparr>"

text \<open>A running task whose buffer holds 1000 lines.\<close>

definition buffer_full :: world where
  "buffer_full = (unlocked_with Running)\<lparr>outputBuffer := replicate 1000 ''out''\<rparr>"

text \<open>After a restart: \<open>/continue\<close>, \<open>/pause\<close> and \<open>/continue\<close> again.\<close>

definition session :: "(env \<times> event) list" where
  "session = [(operator_at 2000, CmdContinue), (operator_at 3000, CmdPause), (operator_at 4000, CmdContinue)]"

text \<open>Three requests \<open>/run\<close> on the unlocked, idle bot: one without a description at
  time 10000 leaves \<open>rate_w1\<close>, one at time 12000 leaves \<open>rate_w2\<close>, and the third
  comes at time 14000.\<close>

definition rate_w1 :: world where
  "rate_w1 = snd (cmd_run cfg0 10000 Unchanged ''t1'' 42 ''/run'' unlocked_idle)"

definition rate_w2 :: world where
  "rate_w2 = snd (cmd_run cfg0 12000 Unchanged ''t1'' 42 ''/run build'' rate_w1)"

section \<open>What each primitive does to each variable\<close>

lemma saveState_frame [simp]:
  "state (saveState w) = state w" "currentProcess (saveState w) = currentProcess w"
  "outputBuffer (saveState w) = outputBuffer w" "heartbeatInterval (saveState w) = heartbeatInterval w"
  "quantumTimer (saveState w) = quantumTimer w" "lastRequestTime (saveState w) = lastRequestTime w"
  "diskWritable (saveState w) = diskWritable w" "secret (saveState w) = secret w"
  "logs (saveState w) = logs w" "activeIntervals (saveState w) = activeIntervals w"
  "activeTimeouts (saveState w) = activeTimeouts w" "nextTimer (saveState w) = nextTimer w"
  "nextPid (saveState w) = nextPid w" "spawned (saveState w) = spawned w"
  "signalled (saveState w) = signalled w" "noticePending (saveState w) = noticePending w"
  "argLimit (saveState w) = argLimit w"
  by (simp_all add: saveState_def)

lemma update_task_frame [simp]:
  "currentTask (state (update_task f w)) = map_option f (currentTask (state w))"
  "unlockedUntil (state (update_task f w)) = unlockedUntil (state w)"
  "currentProcess (update_task f w) = currentProcess w"
  "outputBuffer (update_task f w) = outputBuffer w" "heartbeatInterval (update_task f w) = heartbeatInterval w"
  "quantumTimer (update_task f w) = quantumTimer w" "lastRequestTime (update_task f w) = lastRequestTime w"
  "disk (update_task f w) = disk w"
  "diskWritable (update_task f w) = diskWritable w" "secret (update_task f w) = secret w"
  "logs (update_task f w) = logs w" "activeIntervals (update_task f w) = activeIntervals w"
  "activeTimeouts (update_task f w) = activeTimeouts w" "nextTimer (update_task f w) = nextTimer w"
  "nextPid (update_task f w) = nextPid w" "spawned (update_task f w) = spawned w"
  "signalled (update_task f w) = signalled w" "noticePending (update_task f w) = noticePending w"
  "argLimit (update_task f w) = argLimit w"
  by (simp_all add: update_task_def)

lemma set_task_frame [simp]:
  "currentTask (state (set_task t w)) = t"
  "unlockedUntil (state (set_task t w)) = unlockedUntil (state w)"
  "currentProcess (set_task t w) = currentProcess w"
  "outputBuffer (set_task t w) = outputBuffer w" "heartbeatInterval (set_task t w) = heartbeatInterval w"
  "quantumTimer (set_task t w) = quantumTimer w" "lastRequestTime (set_task t w) = lastRequestTime w"
  "disk (set_task t w) = disk w"
  "diskWritable (set_task t w) = diskWritable w" "secret (set_task t w) = secret w"
  "logs (set_task t w) = logs w" "activeIntervals (set_task t w) = activeIntervals w"
  "activeTimeouts (set_task t w) = activeTimeouts w" "nextTimer (set_task t w) = nextTimer w"
  "nextPid (set_task t w) = nextPid w" "spawned (set_task t w) = spawned w"
  "signalled (set_task t w) = signalled w" "noticePending (set_task t w) = noticePending w"
  "argLimit (set_task t w) = argLimit w"
  by (simp_all add: set_task_def)

lemma stopTimers_frame [simp]:
  "state (stopTimers w) = state w" "currentProcess (stopTimers w) = currentProcess w"
  "outputBuffer (stopTimers w) = outputBuffer w" "heartbeatInterval (stopTimers w) = None"
  "quantumTimer (stopTimers w) = None" "lastRequestTime (stopTimers w) = lastRequestTime w"
  "disk (stopTimers w) = disk w"
  "diskWritable (stopTimers w) = diskWritable w" "secret (stopTimers w) = secret w"
  "logs (stopTimers w) = logs w"
  "activeIntervals (stopTimers w) = activeIntervals w - set_option (heartbeatInterval w)"
  "activeTimeouts (stopTimers w) = activeTimeouts w - set_option (quantumTimer w)"
  "nextTimer (stopTimers w) = nextTimer w"
  "nextPid (stopTimers w) = nextPid w" "spawned (stopTimers w) = spawned w"
  "signalled (stopTimers w) = signalled w" "noticePending (stopTimers w) = noticePending w"
  "argLimit (stopTimers w) = argLimit w"
  by (simp_all add: stopTimers_def Let_def split: option.splits)

lemma startTimers_frame [simp]:
  "state (startTimers w) = state w" "currentProcess (startTimers w) = currentProcess w"
  "outputBuffer (startTimers w) = outputBuffer w" "heartbeatInterval (startTimers w) = Some (nextTimer w)"
  "quantumTimer (startTimers w) = Some (Suc (nextTimer w))" "lastRequestTime (startTimers w) = lastRequestTime w"
  "disk (startTimers w) = disk w"
  "diskWritable (startTimers w) = diskWritable w" "secret (startTimers w) = secret w"
  "logs (startTimers w) = logs w"
  "activeIntervals (startTimers w) = insert (nextTimer w) (activeIntervals w)"
  "activeTimeouts (startTimers w) = insert (Suc (nextTimer w)) (activeTimeouts w)"
  "nextTimer (startTimers w) = Suc (Suc (nextTimer w))"
  "nextPid (startTimers w) = nextPid w" "spawned (startTimers w) = spawned w"
  "signalled (startTimers w) = signalled w" "noticePending (startTimers w) = noticePending w"
  "argLimit (startTimers w) = argLimit w"
  by (simp_all add: startTimers_def)

lemma killCurrent_frame [simp]:
  "state (killCurrent sg w) = state w" "currentProcess (killCurrent sg w) = None"
  "outputBuffer (killCurrent sg w) = outputBuffer w" "heartbeatInterval (killCurrent sg w) = heartbeatInterval w"
  "quantumTimer (killCurrent sg w) = quantumTimer w" "lastRequestTime (killCurrent sg w) = lastRequestTime w"
  "disk (killCurrent sg w) = disk w"
  "diskWritable (killCurrent sg w) = diskWritable w" "secret (killCurrent sg w) = secret w"
  "logs (killCurrent sg w) = logs w" "activeIntervals (killCurrent sg w) = activeIntervals w"
  "activeTimeouts (killCurrent sg w) = activeTimeouts w" "nextTimer (killCurrent sg w) = nextTimer w"
  "nextPid (killCurrent sg w) = nextPid w" "spawned (killCurrent sg w) = spawned w"
  "signalled (killCurrent sg w) =
     signalled w @ (case currentProcess w of None \<Rightarrow> [] | Some p \<Rightarrow> [(p, sg)])"
  "noticePending (killCurrent sg w) = noticePending w"
  "argLimit (killCurrent sg w) = argLimit w"
  by (simp_all add: killCurrent_def split: option.splits)

lemma sendOrEdit_frame [simp]:
  "currentTask (state (sendOrEditStatusMessage d w)) =
     map_option (\<lambda>t. case d of Unchanged \<Rightarrow> t | NewMessage m \<Rightarrow> t\<lparr>statusMsgId := Some m\<rparr>)
       (currentTask (state w))"
  "unlockedUntil (state (sendOrEditStatusMessage d w)) = unlockedUntil (state w)"
  "currentProcess (sendOrEditStatusMessage d w) = currentProcess w"
  "outputBuffer (sendOrEditStatusMessage d w) = outputBuffer w"
  "heartbeatInterval (sendOrEditStatusMessage d w) = heartbeatInterval w"
  "quantumTimer (sendOrEditStatusMessage d w) = quantumTimer w"
  "lastRequestTime (sendOrEditStatusMessage d w) = lastRequestTime w"
  "diskWritable (sendOrEditStatusMessage d w) = diskWritable w"
  "secret (sendOrEditStatusMessage d w) = secret w"
  "logs (sendOrEditStatusMessage d w) = logs w"
  "activeIntervals (sendOrEditStatusMessage d w) = activeIntervals w"
  "activeTimeouts (sendOrEditStatusMessage d w) = activeTimeouts w"
  "nextTimer (sendOrEditStatusMessage d w) = nextTimer w"
  "nextPid (sendOrEditStatusMessage d w) = nextPid w"
  "spawned (sendOrEditStatusMessage d w) = spawned w"
  "signalled (sendOrEditStatusMessage d w) = signalled w"
  "noticePending (sendOrEditStatusMessage d w) = noticePending w"
  "argLimit (sendOrEditStatusMessage d w) = argLimit w"
  by (simp_all add: sendOrEditStatusMessage_def split: option.splits delivery.splits)

lemma task_status_simps [simp]:
  "task_status (saveState w) = task_status w"
  "task_status (stopTimers w) = task_status w"
  "task_status (startTimers w) = task_status w"
  "task_status (killCurrent sg w) = task_status w"
  "task_status (set_task t w) = map_option status t"
  "task_status (update_task f w) = map_option (status \<circ> f) (currentTask (state w))"
  by (simp_all add: task_status_def option.map_comp comp_def split: option.splits delivery.splits)

lemma task_status_push [simp]:
  "task_status (sendOrEditStatusMessage d w) = task_status w"
  by (cases d; cases "currentTask (state w)") (simp_all add: task_status_def)

lemma stopTimers_idem: "stopTimers (stopTimers w) = stopTimers w"
  by (simp add: stopTimers_def Let_def split: option.splits)

lemma stopTimers_stopped: "heartbeatInterval w = None \<Longrightarrow> quantumTimer w = None \<Longrightarrow> stopTimers w = w"
  by (simp add: stopTimers_def)

lemma prompt_fields [simp]:
  "buildContinuationPrompt cfg (t\<lparr>status := s\<rparr>) = buildContinuationPrompt cfg t"
  "buildContinuationPrompt cfg (t\<lparr>quantumStartedAt := q\<rparr>) = buildContinuationPrompt cfg t"
  "buildContinuationPrompt cfg (t\<lparr>continuationCount := c\<rparr>) = buildContinuationPrompt cfg t"
  by (simp_all add: buildContinuationPrompt_def)

lemma appendToLog_frame [simp]:
  "state (appendToLog l w) = state w" "currentProcess (appendToLog l w) = currentProcess w"
  "outputBuffer (appendToLog l w) = outputBuffer w" "heartbeatInterval (appendToLog l w) = heartbeatInterval w"
  "quantumTimer (appendToLog l w) = quantumTimer w" "lastRequestTime (appendToLog l w) = lastRequestTime w"
  "disk (appendToLog l w) = disk w"
  "diskWritable (appendToLog l w) = diskWritable w" "secret (appendToLog l w) = secret w"
  "activeIntervals (appendToLog l w) = activeIntervals w"
  "activeTimeouts (appendToLog l w) = activeTimeouts w" "nextTimer (appendToLog l w) = nextTimer w"
  "nextPid (appendToLog l w) = nextPid w" "spawned (appendToLog l w) = spawned w"
  "signalled (appendToLog l w) = signalled w" "noticePending (appendToLog l w) = noticePending w"
  "argLimit (appendToLog l w) = argLimit w"
  by (simp_all add: appendToLog_def split: option.splits)

lemma pushLine_frame [simp]:
  "state (pushLine l w) = state w" "currentProcess (pushLine l w) = currentProcess w"
  "outputBuffer (pushLine l w) = outputBuffer w @ [l]" "heartbeatInterval (pushLine l w) = heartbeatInterval w"
  "quantumTimer (pushLine l w) = quantumTimer w" "lastRequestTime (pushLine l w) = lastRequestTime w"
  "disk (pushLine l w) = disk w"
  "diskWritable (pushLine l w) = diskWritable w" "secret (pushLine l w) = secret w"
  "activeIntervals (pushLine l w) = activeIntervals w"
  "activeTimeouts (pushLine l w) = activeTimeouts w" "nextTimer (pushLine l w) = nextTimer w"
  "nextPid (pushLine l w) = nextPid w" "spawned (pushLine l w) = spawned w"
  "signalled (pushLine l w) = signalled w" "noticePending (pushLine l w) = noticePending w"
  "argLimit (pushLine l w) = argLimit w"
  by (simp_all add: pushLine_def)

lemma push_lines_frame [simp]:
  "state (foldl (\<lambda>v l. if l \<noteq> [] then pushLine (f l) v else v) w ls) = state w"
  "currentProcess (foldl (\<lambda>v l. if l \<noteq> [] then pushLine (f l) v else v) w ls) = currentProcess w"
  "heartbeatInterval (foldl (\<lambda>v l. if l \<noteq> [] then pushLine (f l) v else v) w ls) = heartbeatInterval w"
  "quantumTimer (foldl (\<lambda>v l. if l \<noteq> [] then pushLine (f l) v else v) w ls) = quantumTimer w"
  "lastRequestTime (foldl (\<lambda>v l. if l \<noteq> [] then pushLine (f l) v else v) w ls) = lastRequestTime w"
  "activeIntervals (foldl (\<lambda>v l. if l \<noteq> [] then pushLine (f l) v else v) w ls) = activeIntervals w"
  "activeTimeouts (foldl (\<lambda>v l. if l \<noteq> [] then pushLine (f l) v else v) w ls) = activeTimeouts w"
  "nextTimer (foldl (\<lambda>v l. if l \<noteq> [] then pushLine (f l) v else v) w ls) = nextTimer w"
  "nextPid (foldl (\<lambda>v l. if l \<noteq> [] then pushLine (f l) v else v) w ls) = nextPid w"
  "spawned (foldl (\<lambda>v l. if l \<noteq> [] then pushLine (f l) v else v) w ls) = spawned w"
  "signalled (foldl (\<lambda>v l. if l \<noteq> [] then pushLine (f l) v else v) w ls) = signalled w"
  "argLimit (foldl (\<lambda>v l. if l \<noteq> [] then pushLine (f l) v else v) w ls) = argLimit w"
  "task_status (foldl (\<lambda>v l. if l \<noteq> [] then pushLine (f l) v else v) w ls) = task_status w"
  "outputBuffer (foldl (\<lambda>v l. if l \<noteq> [] then pushLine (f l) v else v) w ls)
     = outputBuffer w @ map f (filter (\<lambda>l. l \<noteq> []) ls)"
  by (induction ls arbitrary: w; simp add: task_status_def)+

lemma slice_from_length: "length (slice_from (- int k) xs) = (if k = 0 then length xs else min k (length xs))"
  by (auto simp: slice_from_def Let_def)

lemma slice_from_suffix: "suffix (slice_from s xs) xs"
  by (simp add: slice_from_def Let_def suffix_drop)

lemma slice_500: "length (slice_from (- 500) xs) \<le> 500"
  by (simp add: slice_from_def Let_def)

lemma stdout_bounded: "length (outputBuffer (on_stdout_data text w)) \<le> 1000"
proof -
  have "length (slice_from (- 500) xs) \<le> 1000" for xs :: "string list"
    using slice_500 [of xs] by linarith
  then show ?thesis
    by (simp add: on_stdout_data_def Let_def)
qed

lemma tail_length_suffix: "0 < n \<Longrightarrow> length (tail n buf) = min (nat n) (length buf) \<and> suffix (tail n buf) buf"
  using slice_from_length[of "nat n" buf] by (simp add: tail_def slice_from_suffix)

lemma tail_zero: "tail 0 buf = buf"
  by (simp add: tail_def slice_from_def)

lemma stderr_grows: "outputBuffer (on_stderr_data text w) =
   outputBuffer w @ map (\<lambda>l. ''[ERR] '' @ l) (filter (\<lambda>l. l \<noteq> []) (split_on CHR 0x0A text))"
  by (simp add: on_stderr_data_def)

subsection \<open>Starting a burst\<close>

lemma settled_simps [simp]: "settled (Inl w) = w" "settled (Inr w) = w"
  by (simp_all add: settled_def)

text \<open>What \<open>startExecution\<close> does in either case, what it does when \<open>spawn\<close> returns
  and what it leaves when \<open>spawn\<close> throws.\<close>

lemma start_common:
  assumes "currentTask (state w) = Some t"
  shows "task_status (settled (startExecution cfg now d tx r w)) = Some Running"
    and "map_option quantumStartedAt (currentTask (state (settled (startExecution cfg now d tx r w))))
           = Some now"
    and "map_option continuationCount (currentTask (state (settled (startExecution cfg now d tx r w))))
           = Some (continuationCount t)"
    and "map_option taskText (currentTask (state (settled (startExecution cfg now d tx r w))))
           = Some (taskText t)"
    and "map_option id_task (currentTask (state (settled (startExecution cfg now d tx r w))))
           = Some (id_task t)"
    and "map_option lastTail (currentTask (state (settled (startExecution cfg now d tx r w))))
           = Some (lastTail t)"
    and "outputBuffer (settled (startExecution cfg now d tx r w)) = []"
    and "lastRequestTime (settled (startExecution cfg now d tx r w)) = lastRequestTime w"
    and "unlockedUntil (state (settled (startExecution cfg now d tx r w))) = unlockedUntil (state w)"
    and "argLimit (settled (startExecution cfg now d tx r w)) = argLimit w"
    and "signalled (settled (startExecution cfg now d tx r w)) = signalled w"
  using assms
  by (cases d; simp add: startExecution_def Let_def task_status_def)+

lemma start_returns:
  assumes "currentTask (state w) = Some t"
    and "\<not> spawnThrows w (shellCommand (if r then buildContinuationPrompt cfg t else tx))"
  shows "\<not> isl (startExecution cfg now d tx r w)"
    and "currentProcess (settled (startExecution cfg now d tx r w)) = Some (nextPid w)"
    and "spawned (settled (startExecution cfg now d tx r w))
           = spawned w @ [(nextPid w, shellCommand (if r then buildContinuationPrompt cfg t else tx),
                           WORKDIR cfg)]"
    and "heartbeatInterval (settled (startExecution cfg now d tx r w)) = Some (nextTimer w)"
    and "quantumTimer (settled (startExecution cfg now d tx r w)) = Some (Suc (nextTimer w))"
    and "activeIntervals (settled (startExecution cfg now d tx r w))
           = insert (nextTimer w) (activeIntervals w)"
    and "activeTimeouts (settled (startExecution cfg now d tx r w))
           = insert (Suc (nextTimer w)) (activeTimeouts w)"
    and "nextTimer (settled (startExecution cfg now d tx r w)) = Suc (Suc (nextTimer w))"
    and "nextPid (settled (startExecution cfg now d tx r w)) = Suc (nextPid w)"
  using assms
  by (cases r; simp add: startExecution_def Let_def spawnThrows_def)+

lemma start_throws:
  assumes "currentTask (state w) = Some t"
    and "spawnThrows w (shellCommand (if r then buildContinuationPrompt cfg t else tx))"
  shows "isl (startExecution cfg now d tx r w)"
    and "currentProcess (settled (startExecution cfg now d tx r w)) = currentProcess w"
    and "spawned (settled (startExecution cfg now d tx r w)) = spawned w"
    and "heartbeatInterval (settled (startExecution cfg now d tx r w)) = heartbeatInterval w"
    and "quantumTimer (settled (startExecution cfg now d tx r w)) = quantumTimer w"
    and "activeIntervals (settled (startExecution cfg now d tx r w)) = activeIntervals w"
    and "activeTimeouts (settled (startExecution cfg now d tx r w)) = activeTimeouts w"
    and "nextTimer (settled (startExecution cfg now d tx r w)) = nextTimer w"
    and "nextPid (settled (startExecution cfg now d tx r w)) = nextPid w"
  using assms
  by (cases r; simp add: startExecution_def Let_def spawnThrows_def)+

text \<open>The same for the part that \<open>/continue\<close> and the button \<open>CONTINUE\<close> share.\<close>

lemma resume_common:
  assumes "currentTask (state w) = Some t"
  shows "fst (resume cfg now d t ok w) = ok"
    and "task_status (snd (resume cfg now d t ok w)) = Some Running"
    and "map_option quantumStartedAt (currentTask (state (snd (resume cfg now d t ok w)))) = Some now"
    and "map_option continuationCount (currentTask (state (snd (resume cfg now d t ok w))))
           = Some (continuationCount t + 1)"
    and "map_option taskText (currentTask (state (snd (resume cfg now d t ok w)))) = Some (taskText t)"
    and "map_option id_task (currentTask (state (snd (resume cfg now d t ok w)))) = Some (id_task t)"
    and "outputBuffer (snd (resume cfg now d t ok w)) = []"
    and "lastRequestTime (snd (resume cfg now d t ok w)) = lastRequestTime w"
    and "unlockedUntil (state (snd (resume cfg now d t ok w))) = unlockedUntil (state w)"
    and "argLimit (snd (resume cfg now d t ok w)) = argLimit w"
    and "signalled (snd (resume cfg now d t ok w)) = signalled w"
proof -
  let ?w1 = "saveState (update_task (\<lambda>t. t\<lparr>continuationCount := continuationCount t + 1\<rparr>) w)"
  have t1: "currentTask (state ?w1) = Some (t\<lparr>continuationCount := continuationCount t + 1\<rparr>)"
    using assms by simp
  show "fst (resume cfg now d t ok w) = ok"
    and "task_status (snd (resume cfg now d t ok w)) = Some Running"
    and "map_option quantumStartedAt (currentTask (state (snd (resume cfg now d t ok w)))) = Some now"
    and "map_option continuationCount (currentTask (state (snd (resume cfg now d t ok w))))
           = Some (continuationCount t + 1)"
    and "map_option taskText (currentTask (state (snd (resume cfg now d t ok w)))) = Some (taskText t)"
    and "map_option id_task (currentTask (state (snd (resume cfg now d t ok w)))) = Some (id_task t)"
    and "outputBuffer (snd (resume cfg now d t ok w)) = []"
    and "lastRequestTime (snd (resume cfg now d t ok w)) = lastRequestTime w"
    and "unlockedUntil (state (snd (resume cfg now d t ok w))) = unlockedUntil (state w)"
    and "argLimit (snd (resume cfg now d t ok w)) = argLimit w"
    and "signalled (snd (resume cfg now d t ok w)) = signalled w"
    using start_common [OF t1, of cfg now d "taskText t" True]
    by (simp_all add: resume_def Let_def)
qed

lemma spawnThrows_saved [simp]:
  "spawnThrows (saveState w) c = spawnThrows w c"
  "spawnThrows (update_task f w) c = spawnThrows w c"
  "spawnThrows (set_task t w) c = spawnThrows w c"
  by (simp_all add: spawnThrows_def)

lemma resume_returns:
  assumes "currentTask (state w) = Some t"
    and "\<not> spawnThrows w (shellCommand (buildContinuationPrompt cfg t))"
  shows "currentProcess (snd (resume cfg now d t ok w)) = Some (nextPid w)"
    and "spawned (snd (resume cfg now d t ok w))
           = spawned w @ [(nextPid w, shellCommand (buildContinuationPrompt cfg t), WORKDIR cfg)]"
    and "heartbeatInterval (snd (resume cfg now d t ok w)) = Some (nextTimer w)"
    and "quantumTimer (snd (resume cfg now d t ok w)) = Some (Suc (nextTimer w))"
    and "activeIntervals (snd (resume cfg now d t ok w)) = insert (nextTimer w) (activeIntervals w)"
    and "activeTimeouts (snd (resume cfg now d t ok w))
           = insert (Suc (nextTimer w)) (activeTimeouts w)"
    and "nextTimer (snd (resume cfg now d t ok w)) = Suc (Suc (nextTimer w))"
    and "nextPid (snd (resume cfg now d t ok w)) = Suc (nextPid w)"
proof -
  let ?w1 = "saveState (update_task (\<lambda>t. t\<lparr>continuationCount := continuationCount t + 1\<rparr>) w)"
  let ?t1 = "t\<lparr>continuationCount := continuationCount t + 1\<rparr>"
  have t1: "currentTask (state ?w1) = Some ?t1"
    using assms(1) by simp
  have s1: "\<not> spawnThrows ?w1 (shellCommand (if True then buildContinuationPrompt cfg ?t1 else taskText t))"
    using assms(2) by simp
  show "currentProcess (snd (resume cfg now d t ok w)) = Some (nextPid w)"
    and "spawned (snd (resume cfg now d t ok w))
           = spawned w @ [(nextPid w, shellCommand (buildContinuationPrompt cfg t), WORKDIR cfg)]"
    and "heartbeatInterval (snd (resume cfg now d t ok w)) = Some (nextTimer w)"
    and "quantumTimer (snd (resume cfg now d t ok w)) = Some (Suc (nextTimer w))"
    and "activeIntervals (snd (resume cfg now d t ok w)) = insert (nextTimer w) (activeIntervals w)"
    and "activeTimeouts (snd (resume cfg now d t ok w))
           = insert (Suc (nextTimer w)) (activeTimeouts w)"
    and "nextTimer (snd (resume cfg now d t ok w)) = Suc (Suc (nextTimer w))"
    and "nextPid (snd (resume cfg now d t ok w)) = Suc (nextPid w)"
    using start_returns(2-9) [OF t1 s1, of now d]
    by (simp_all add: resume_def Let_def)
qed

lemma resume_throws:
  assumes "currentTask (state w) = Some t"
    and "spawnThrows w (shellCommand (buildContinuationPrompt cfg t))"
  shows "isl (startExecution cfg now d (taskText t) True
             (saveState (update_task (\<lambda>t. t\<lparr>continuationCount := continuationCount t + 1\<rparr>) w)))"
    and "currentProcess (snd (resume cfg now d t ok w)) = currentProcess w"
    and "spawned (snd (resume cfg now d t ok w)) = spawned w"
    and "heartbeatInterval (snd (resume cfg now d t ok w)) = heartbeatInterval w"
    and "quantumTimer (snd (resume cfg now d t ok w)) = quantumTimer w"
    and "activeIntervals (snd (resume cfg now d t ok w)) = activeIntervals w"
    and "activeTimeouts (snd (resume cfg now d t ok w)) = activeTimeouts w"
    and "nextTimer (snd (resume cfg now d t ok w)) = nextTimer w"
    and "nextPid (snd (resume cfg now d t ok w)) = nextPid w"
proof -
  let ?w1 = "saveState (update_task (\<lambda>t. t\<lparr>continuationCount := continuationCount t + 1\<rparr>) w)"
  let ?t1 = "t\<lparr>continuationCount := continuationCount t + 1\<rparr>"
  have t1: "currentTask (state ?w1) = Some ?t1"
    using assms(1) by simp
  have s1: "spawnThrows ?w1 (shellCommand (if True then buildContinuationPrompt cfg ?t1 else taskText t))"
    using assms(2) by simp
  show "isl (startExecution cfg now d (taskText t) True ?w1)"
    and "currentProcess (snd (resume cfg now d t ok w)) = currentProcess w"
    and "spawned (snd (resume cfg now d t ok w)) = spawned w"
    and "heartbeatInterval (snd (resume cfg now d t ok w)) = heartbeatInterval w"
    and "quantumTimer (snd (resume cfg now d t ok w)) = quantumTimer w"
    and "activeIntervals (snd (resume cfg now d t ok w)) = activeIntervals w"
    and "activeTimeouts (snd (resume cfg now d t ok w)) = activeTimeouts w"
    and "nextTimer (snd (resume cfg now d t ok w)) = nextTimer w"
    and "nextPid (snd (resume cfg now d t ok w)) = nextPid w"
    using start_throws [OF t1 s1, of now d]
    by (simp_all add: resume_def Let_def)
qed

text \<open>The continuation prompt holds the description of the task and the last 20 lines
  of \<open>lastTail\<close>, so it is never the bare description.\<close>

lemma prompt_shape:
  "buildContinuationPrompt cfg t =
     ''CONTINUATION PROMPT - Task was paused due to time limit.'' @ newline @ newline
     @ ''Original task: '' @ taskText t @ newline @ newline
     @ ''Working directory: '' @ WORKDIR cfg @ newline @ newline
     @ ''Last output before pause:'' @ newline @ fence @ newline
     @ join newline (slice_from (- 20) (lastTail t)) @ newline @ fence @ newline @ newline
     @ ''Please continue the task from where it left off. Maintain consistency with previous work.''"
  by (simp add: buildContinuationPrompt_def Let_def)

lemma prompt_not_bare: "buildContinuationPrompt cfg t \<noteq> taskText t"
proof
  assume "buildContinuationPrompt cfg t = taskText t"
  then have "length (buildContinuationPrompt cfg t) = length (taskText t)" by simp
  then show False by (simp add: prompt_shape)
qed

text \<open>A NUL character in one of the last 20 lines of \<open>lastTail\<close> is in the command of the
  next burst.\<close>

lemma set_join: "l \<in> set xs \<Longrightarrow> set l \<subseteq> set (join sep xs)"
  by (induction sep xs rule: join.induct) auto

lemma set_escapePrompt: "c \<in> set p \<Longrightarrow> c \<noteq> CHR 0x27 \<Longrightarrow> c \<in> set (escapePrompt p)"
  by (induction p) (auto simp: escapePrompt_def)

lemma nul_reaches_command:
  assumes "l \<in> set (slice_from (- 20) (lastTail t))" "CHR 0x00 \<in> set l"
  shows "spawnThrows w (shellCommand (buildContinuationPrompt cfg t))"
proof -
  have "CHR 0x00 \<in> set (join newline (slice_from (- 20) (lastTail t)))"
    using set_join [OF assms(1)] assms(2) by blast
  then have "CHR 0x00 \<in> set (buildContinuationPrompt cfg t)"
    by (simp add: prompt_shape)
  then have "CHR 0x00 \<in> set (escapePrompt (buildContinuationPrompt cfg t))"
    by (rule set_escapePrompt) simp
  then show ?thesis
    by (simp add: spawnThrows_def shellCommand_def)
qed

section \<open>Properties\<close>

subsection \<open>Reloading after a crash\<close>

text \<open>
  Claim C1. When the state file holds a task whose status is \<open>Running\<close>, \<open>loadState\<close>
  (the first thing \<open>main\<close> does) turns it into \<open>Paused\<close> and leaves its other fields
  alone, so the state a restarted process works on has this task paused; and whatever
  the state file holds, no restart ends with a task that is \<open>Running\<close>.
\<close>

theorem load_reclassifies_running:
  "(disk w = Some (Doc u (Some (Some t))) \<and> status t = Running \<longrightarrow>
      currentTask (state (loadState w)) = Some (t\<lparr>status := Paused\<rparr>) \<and>
      currentTask (state (restart w)) = Some (t\<lparr>status := Paused\<rparr>))
   \<and> task_status (restart w') \<noteq> Some Running"
proof -
  have a: "currentTask (state (loadState v)) = Some (t\<lparr>status := Paused\<rparr>)"
    if "disk v = Some (Doc u (Some (Some t)))" "status t = Running" for v
    using that by (simp add: loadState_def merge_loaded_def Let_def task_status_def)
  have b: "currentTask (state (main v)) = currentTask (state (loadState v))" for v
    by (simp add: main_def Let_def)
  have c: "task_status (loadState (boot v)) \<noteq> Some Running" for v
    by (auto simp: boot_def loadState_def merge_loaded_def Let_def task_status_def
        split: option.splits stored.splits)
  have d: "disk (boot v) = disk v" for v
    by (simp add: boot_def)
  show ?thesis
    using a [of w] a [of "boot w"] b [of "boot w"] b [of "boot w'"] c [of w'] d [of w]
    by (simp add: restart_def task_status_def)
qed

theorem load_reclassifies_running_witness:
  "disk crashed = Some (Doc (Some 900000) (Some (Some task0))) \<and> status task0 = Running \<and>
   currentTask (state (restart crashed)) = Some (task0\<lparr>status := Paused\<rparr>)"
  using load_reclassifies_running [of crashed "Some 900000" task0]
  by (simp add: crashed_def task0_def blank_def)

subsection \<open>The output buffer\<close>

text \<open>The listener of \<open>stdout\<close> leaves at most 1000 lines, and the listener of
  \<open>stderr\<close> only ever appends (\<open>stderr_grows\<close>). For \<open>n > 0\<close> the tail is the last
  \<open>min n (length buf)\<close> lines of the buffer in their order (\<open>tail_length_suffix\<close>);
  for \<open>n = 0\<close> it is the whole buffer, since \<open>slice(-0)\<close> is \<open>slice(0)\<close>.\<close>

lemma stdout_leaves_bounded: "length (outputBuffer (step cfg (e, StdoutData text) w)) \<le> 1000"
  by (simp add: step_def handle_def stdout_bounded)

text \<open>
  Claim C4, at the input where the code leaves it. The buffer holds 1000 lines, which
  the listener of \<open>stdout\<close> does not cut; one line then arrives on \<open>stderr\<close>, and
  the buffer holds 1001 lines when the listener returns, above the mark of 1000.
\<close>

theorem stderr_exceeds_high_water:
  "length (outputBuffer buffer_full) = 1000 \<and>
   length (outputBuffer (step cfg0 (operator_at 5000, StderrData ''boom'') buffer_full)) = 1001"
  by (simp add: step_def handle_def stderr_grows buffer_full_def)

subsection \<open>Starting while a task is active\<close>

text \<open>
  Claim C3, amended. While a task is \<open>Running\<close> or \<open>Paused\<close>, \<open>/run\<close> is always
  rejected and leaves the task as it is. The reason is the first guard that fails: the
  locked access gate, then the rate limit, and only then the active task; in the last case the
  time of the request is stored in \<open>lastRequestTime\<close>, and nothing else changes.
\<close>

theorem run_rejected_while_active:
  "currentTask (state w) = Some t \<and> active t \<longrightarrow>
     cmd_run cfg now d uuid chat body w =
       (if \<not> isUnlocked now w then (LockedReply, w)
        else if now - lastRequestTime w < RATE_LIMIT_MS then (RateLimited, w)
        else (TaskAlready (status t), w\<lparr>lastRequestTime := now\<rparr>))
     \<and> currentTask (state (snd (cmd_run cfg now d uuid chat body w))) = Some t"
  by (simp add: cmd_run_def rateLimitCheck_def isUnlocked_def)

theorem run_rejected_while_active_witness:
  "currentTask (state (unlocked_with Paused)) = Some (task0\<lparr>status := Paused\<rparr>)
   \<and> active (task0\<lparr>status := Paused\<rparr>)
   \<and> cmd_run cfg0 5000 Unchanged ''t2'' 42 ''/run deploy'' (unlocked_with Paused)
       = (TaskAlready Paused, (unlocked_with Paused)\<lparr>lastRequestTime := 5000\<rparr>)"
  using run_rejected_while_active [where w = "unlocked_with Paused"
      and t = "task0\<lparr>status := Paused\<rparr>" and now = 5000 and cfg = cfg0
      and d = Unchanged and uuid = "''t2''" and chat = 42 and body = "''/run deploy''"]
  by (simp add: unlocked_with_def blank_def active_def isUnlocked_def RATE_LIMIT_MS_def)

text \<open>The claim as it is written fails when the access gate is locked: the task is running and
  \<open>/run\<close> answers that the bot is locked.\<close>

theorem run_locked_counterexample:
  "task_status (locked_with Running) = Some Running \<and>
   fst (cmd_run cfg0 5000 Unchanged ''t2'' 42 ''/run deploy'' (locked_with Running)) = LockedReply"
  by (simp add: cmd_run_def isUnlocked_def locked_with_def blank_def task_status_def)

subsection \<open>The access gate\<close>

text \<open>Two worlds that differ only in the access gate agree on everything a safety operation
  reads, and every primitive keeps them so.\<close>

lemma gate_blind_eq_iff:
  "gate_blind w = gate_blind v \<longleftrightarrow>
     currentTask (state w) = currentTask (state v) \<and> currentProcess w = currentProcess v \<and>
     outputBuffer w = outputBuffer v \<and> heartbeatInterval w = heartbeatInterval v \<and>
     quantumTimer w = quantumTimer v \<and> lastRequestTime w = lastRequestTime v \<and>
     disk_blind (disk w) = disk_blind (disk v) \<and> diskWritable w = diskWritable v \<and>
     secret w = secret v \<and> logs w = logs v \<and> activeIntervals w = activeIntervals v \<and>
     activeTimeouts w = activeTimeouts v \<and> nextTimer w = nextTimer v \<and> nextPid w = nextPid v \<and>
     spawned w = spawned v \<and> signalled w = signalled v \<and> noticePending w = noticePending v \<and>
     argLimit w = argLimit v"
proof (cases w; cases v)
  fix s1 cp1 ob1 hi1 qt1 lr1 dk1 dw1 se1 lg1 ai1 at1 nt1 np1 sp1 sg1 no1 al1
    s2 cp2 ob2 hi2 qt2 lr2 dk2 dw2 se2 lg2 ai2 at2 nt2 np2 sp2 sg2 no2 al2
  assume w: "w = \<lparr>state = s1, currentProcess = cp1, outputBuffer = ob1, heartbeatInterval = hi1,
      quantumTimer = qt1, lastRequestTime = lr1, disk = dk1, diskWritable = dw1, secret = se1,
      logs = lg1, activeIntervals = ai1, activeTimeouts = at1, nextTimer = nt1, nextPid = np1,
      spawned = sp1, signalled = sg1, noticePending = no1, argLimit = al1\<rparr>"
    and v: "v = \<lparr>state = s2, currentProcess = cp2, outputBuffer = ob2, heartbeatInterval = hi2,
      quantumTimer = qt2, lastRequestTime = lr2, disk = dk2, diskWritable = dw2, secret = se2,
      logs = lg2, activeIntervals = ai2, activeTimeouts = at2, nextTimer = nt2, nextPid = np2,
      spawned = sp2, signalled = sg2, noticePending = no2, argLimit = al2\<rparr>"
  show ?thesis
    unfolding w v by (cases s1; cases s2) (auto simp: gate_blind_def disk_blind_def)
qed


lemma disk_saveState [simp]:
  "disk (saveState w) =
     (if diskWritable w
      then Some (Doc (Some (unlockedUntil (state w))) (Some (currentTask (state w))))
      else disk w)"
  by (simp add: saveState_def)

lemma gb_reads:
  assumes "gate_blind w = gate_blind v"
  shows "currentTask (state w) = currentTask (state v)" "task_status w = task_status v"
    "outputBuffer w = outputBuffer v" "currentProcess w = currentProcess v"
  using assms by (simp_all add: gate_blind_eq_iff task_status_def)

lemma gb_saveState:
  "gate_blind w = gate_blind v \<Longrightarrow> gate_blind (saveState w) = gate_blind (saveState v)"
  by (simp add: gate_blind_eq_iff disk_blind_def)

lemma gb_update_task:
  "gate_blind w = gate_blind v \<Longrightarrow> gate_blind (update_task f w) = gate_blind (update_task f v)"
  by (simp add: gate_blind_eq_iff)

lemma gb_set_task:
  "gate_blind w = gate_blind v \<Longrightarrow> gate_blind (set_task t w) = gate_blind (set_task t v)"
  by (simp add: gate_blind_eq_iff)

lemma gb_stopTimers:
  "gate_blind w = gate_blind v \<Longrightarrow> gate_blind (stopTimers w) = gate_blind (stopTimers v)"
  by (simp add: gate_blind_eq_iff)

lemma gb_killCurrent:
  "gate_blind w = gate_blind v \<Longrightarrow> gate_blind (killCurrent sg w) = gate_blind (killCurrent sg v)"
  by (simp add: gate_blind_eq_iff)

lemma gb_push:
  assumes "gate_blind w = gate_blind v"
  shows "gate_blind (sendOrEditStatusMessage d w) = gate_blind (sendOrEditStatusMessage d v)"
  using assms gb_reads(1) [OF assms] gb_saveState [OF gb_update_task [OF assms]]
  by (simp add: sendOrEditStatusMessage_def split: option.splits delivery.splits)

lemma gb_pause:
  assumes "gate_blind w = gate_blind v"
  shows "gate_blind (pauseCurrentTask cfg d w) = gate_blind (pauseCurrentTask cfg d v)"
proof -
  have k: "gate_blind (killCurrent SIGTERM (stopTimers w)) = gate_blind (killCurrent SIGTERM (stopTimers v))"
    by (intro gb_killCurrent gb_stopTimers assms)
  have t: "currentTask (state w) = currentTask (state v)" and b: "outputBuffer w = outputBuffer v"
    using gb_reads [OF assms] by simp_all
  show ?thesis
  proof (cases "currentTask (state v)")
    case None
    then show ?thesis using t k by (simp add: pauseCurrentTask_def)
  next
    case (Some a)
    then show ?thesis
      using t b gb_push [OF gb_saveState [OF gb_update_task [OF k]]]
      by (simp add: pauseCurrentTask_def)
  qed
qed

lemma gb_stop:
  assumes "gate_blind w = gate_blind v"
  shows "gate_blind (stopCurrentTask cfg d w) = gate_blind (stopCurrentTask cfg d v)"
proof -
  have k: "gate_blind (killCurrent SIGTERM (stopTimers w)) = gate_blind (killCurrent SIGTERM (stopTimers v))"
    by (intro gb_killCurrent gb_stopTimers assms)
  have t: "currentTask (state w) = currentTask (state v)" and b: "outputBuffer w = outputBuffer v"
    using gb_reads [OF assms] by simp_all
  show ?thesis
  proof (cases "currentTask (state v)")
    case None
    then show ?thesis using t k by (simp add: stopCurrentTask_def)
  next
    case (Some a)
    then show ?thesis
      using t b gb_saveState [OF gb_set_task [OF gb_push [OF gb_saveState [OF gb_update_task [OF k]]]]]
      by (simp add: stopCurrentTask_def)
  qed
qed

lemma gb_cancel:
  assumes "gate_blind w = gate_blind v"
  shows "fst (cmd_cancel w) = fst (cmd_cancel v)
     \<and> gate_blind (snd (cmd_cancel w)) = gate_blind (snd (cmd_cancel v))"
proof -
  have k: "gate_blind (killCurrent SIGKILL (stopTimers w)) = gate_blind (killCurrent SIGKILL (stopTimers v))"
    by (intro gb_killCurrent gb_stopTimers assms)
  have t: "currentTask (state w) = currentTask (state v)"
    using gb_reads [OF assms] by simp
  show ?thesis
  proof (cases "currentTask (state v)")
    case None
    then show ?thesis using t assms by (simp add: cmd_cancel_def)
  next
    case (Some a)
    then show ?thesis
      using t gb_saveState [OF gb_set_task [OF gb_saveState [OF gb_update_task [OF k]]]]
      by (simp add: cmd_cancel_def)
  qed
qed

lemma gate_blind_relock [simp]: "gate_blind (relock u w) = gate_blind w"
  by (simp add: gate_blind_def relock_def)

lemma starts_stop:
  assumes "startsWith dat ''STOP:''"
  shows "dat \<noteq> ''STATUS''" "dat \<noteq> ''LOCK''" "dat \<noteq> ''STOP_PANEL''" "dat \<noteq> ''PAUSE''"
    "\<not> startsWith dat ''CONTINUE:''"
proof -
  have t: "take (length ''STOP:'') dat = ''STOP:''"
    using assms unfolding startsWith_def .
  show "dat \<noteq> ''STATUS''" "dat \<noteq> ''LOCK''" "dat \<noteq> ''STOP_PANEL''" "dat \<noteq> ''PAUSE''"
    using t by auto
  show "\<not> startsWith dat ''CONTINUE:''"
  proof
    assume "startsWith dat ''CONTINUE:''"
    then have "take (length ''CONTINUE:'') dat = ''CONTINUE:''"
      unfolding startsWith_def .
    then have "take (length ''STOP:'') (take (length ''CONTINUE:'') dat) = ''CONTI''"
      by simp
    then show False using t by (simp add: min_def)
  qed
qed

lemma cb_status:
  "callback_query cfg now d uid ''STATUS'' w =
     (if uid \<noteq> ALLOWED_USER_ID cfg then (Ignored, w)
      else (case currentTask (state w) of
              None \<Rightarrow> (CbNoActiveTask, w)
            | Some _ \<Rightarrow> (CbStatusUpdated, sendOrEditStatusMessage d w)))"
  by (simp add: callback_query_def)

lemma cb_lock:
  "callback_query cfg now d uid ''LOCK'' w =
     (if uid \<noteq> ALLOWED_USER_ID cfg then (Ignored, w)
      else (CbBotLocked, saveState (w\<lparr>state := (state w)\<lparr>unlockedUntil := 0\<rparr>\<rparr>)))"
  by (simp add: callback_query_def)

lemma cb_stop_panel:
  "callback_query cfg now d uid ''STOP_PANEL'' w =
     (if uid \<noteq> ALLOWED_USER_ID cfg then (Ignored, w)
      else (case currentTask (state w) of
              None \<Rightarrow> (CbNoTaskToStop, w)
            | Some _ \<Rightarrow> (CbStopping, stopCurrentTask cfg d w)))"
  by (simp add: callback_query_def)

lemma cb_pause:
  "callback_query cfg now d uid ''PAUSE'' w =
     (if uid \<noteq> ALLOWED_USER_ID cfg then (Ignored, w)
      else if task_status w \<noteq> Some Running then (CbNoRunningTask, w)
      else (CbPausing, pauseCurrentTask cfg d w))"
  by (simp add: callback_query_def)

lemma cb_stop:
  assumes "startsWith dat ''STOP:''"
  shows "callback_query cfg now d uid dat w =
     (if uid \<noteq> ALLOWED_USER_ID cfg then (Ignored, w)
      else (case currentTask (state w) of
              None \<Rightarrow> (CbTaskNotFound, w)
            | Some t \<Rightarrow>
                (if Some (id_task t) \<noteq> callback_task_id dat then (CbTaskNotFound, w)
                 else (CbStopping, stopCurrentTask cfg d w))))"
  using assms starts_stop [OF assms] by (simp add: callback_query_def)

lemma gb_safety:
  assumes g: "gate_blind w = gate_blind v" and s: "safety_operation ev"
  shows "fst (handle cfg e ev w) = fst (handle cfg e ev v)
       \<and> gate_blind (snd (handle cfg e ev w)) = gate_blind (snd (handle cfg e ev v))"
proof (cases ev)
  case CmdPause
  then show ?thesis
    using g gb_reads(2) [OF g] gb_pause [OF g]
    by (simp add: handle_def cmd_pause_def)
next
  case CmdStop
  then show ?thesis
    using g gb_reads(1) [OF g] gb_stop [OF g]
    by (simp add: handle_def cmd_stop_def split: option.splits)
next
  case CmdCancel
  then show ?thesis
    using g gb_cancel [OF g] by (simp add: handle_def)
next
  case CmdStatus
  then show ?thesis
    using g gb_reads(1) [OF g] by (simp add: handle_def cmd_status_def split: option.splits)
next
  case (CallbackQuery dat)
  then show ?thesis
  proof -
    from s CallbackQuery consider "dat = ''STATUS''" | "dat = ''STOP_PANEL''" | "dat = ''PAUSE''"
      | "startsWith dat ''STOP:''"
      by auto
    then have "fst (callback_query cfg (at_time e) (pushed e) (from_id e) dat w)
          = fst (callback_query cfg (at_time e) (pushed e) (from_id e) dat v)
       \<and> gate_blind (snd (callback_query cfg (at_time e) (pushed e) (from_id e) dat w))
          = gate_blind (snd (callback_query cfg (at_time e) (pushed e) (from_id e) dat v))"
    proof cases
      case 1
      then show ?thesis
        using g gb_reads(1) [OF g] gb_push [OF g] by (simp add: cb_status split: option.splits)
    next
      case 2
      then show ?thesis
        using g gb_reads(1) [OF g] gb_stop [OF g] by (simp add: cb_stop_panel split: option.splits)
    next
      case 3
      then show ?thesis
        using g gb_reads(2) [OF g] gb_pause [OF g] by (simp add: cb_pause)
    next
      case 4
      then show ?thesis
        using g gb_reads(1) [OF g] gb_stop [OF g] by (simp add: cb_stop split: option.splits)
    qed
    then show ?thesis
      using CallbackQuery g by (simp add: handle_def)
  qed
qed (use s in simp_all)

text \<open>
  Claim C6. The reply of \<open>/pause\<close>, \<open>/stop\<close>, \<open>/cancel\<close> and \<open>/status\<close> (and of the
  buttons that do the same) and the world they leave do not depend on the access gate:
  setting \<open>unlockedUntil\<close> to any value changes neither, the access gate itself apart.
  So, whatever the access gate, \<open>/status\<close> answers with the status panel of the task
  (with the keyboard of a paused task when it is paused) or says that there is no task,
  and changes nothing; \<open>/pause\<close> pauses a running task; \<open>/stop\<close> and \<open>/cancel\<close> remove
  a task. With the access gate locked, \<open>/run\<close>, \<open>/continue\<close> and the button \<open>CONTINUE\<close>
  are rejected and change nothing.
\<close>

theorem safety_operations_ignore_gate:
  "(safety_operation ev \<longrightarrow>
      fst (handle cfg e ev (relock u w)) = fst (handle cfg e ev w)
      \<and> gate_blind (snd (handle cfg e ev (relock u w))) = gate_blind (snd (handle cfg e ev w)))
   \<and> (currentTask (state w) = None \<longrightarrow> cmd_status w = (NoActiveTask, w))
   \<and> (currentTask (state w) = Some t \<longrightarrow>
        cmd_status w
          = (StatusPanel t (if status t = Paused then PausedKeyboard (id_task t) else ControlPanel),
             w))
   \<and> (isAllowedUser cfg (from_id e) (chat_private e) \<longrightarrow>
        handle cfg e CmdStatus w = cmd_status w
        \<and> handle cfg e CmdPause w = cmd_pause cfg (pushed e) w
        \<and> handle cfg e CmdStop w = cmd_stop cfg (pushed e) w
        \<and> handle cfg e CmdCancel w = cmd_cancel w)
   \<and> (task_status w = Some Running \<longrightarrow>
        fst (cmd_pause cfg d w) = NoReply
        \<and> task_status (snd (cmd_pause cfg d w)) = Some Paused)
   \<and> (currentTask (state w) \<noteq> None \<longrightarrow>
        fst (cmd_stop cfg d w) = TaskStopped \<and> currentTask (state (snd (cmd_stop cfg d w))) = None
        \<and> fst (cmd_cancel w) = TaskCancelled \<and> currentTask (state (snd (cmd_cancel w))) = None)
   \<and> (\<not> isUnlocked now w \<longrightarrow>
        cmd_run cfg now d uuid chat body w = (LockedReply, w)
        \<and> cmd_continue cfg now d w = (LockedReply, w)
        \<and> callback_query cfg now d (ALLOWED_USER_ID cfg) (''CONTINUE:'' @ i) w = (CbBotIsLocked, w))"
proof -
  have a: "safety_operation ev \<longrightarrow>
      fst (handle cfg e ev (relock u w)) = fst (handle cfg e ev w)
      \<and> gate_blind (snd (handle cfg e ev (relock u w))) = gate_blind (snd (handle cfg e ev w))"
    using gb_safety [of "relock u w" w ev cfg e] by simp
  have s: "(currentTask (state w) = None \<longrightarrow> cmd_status w = (NoActiveTask, w))
     \<and> (currentTask (state w) = Some t \<longrightarrow>
        cmd_status w
          = (StatusPanel t (if status t = Paused then PausedKeyboard (id_task t) else ControlPanel),
             w))"
    by (simp add: cmd_status_def)
  have h: "isAllowedUser cfg (from_id e) (chat_private e) \<longrightarrow>
        handle cfg e CmdStatus w = cmd_status w
        \<and> handle cfg e CmdPause w = cmd_pause cfg (pushed e) w
        \<and> handle cfg e CmdStop w = cmd_stop cfg (pushed e) w
        \<and> handle cfg e CmdCancel w = cmd_cancel w"
    by (simp add: handle_def)
  have b: "task_status w = Some Running \<longrightarrow>
        fst (cmd_pause cfg d w) = NoReply
        \<and> task_status (snd (cmd_pause cfg d w)) = Some Paused"
    by (cases d) (auto simp: cmd_pause_def pauseCurrentTask_def task_status_def)
  have c: "currentTask (state w) \<noteq> None \<longrightarrow>
        fst (cmd_stop cfg d w) = TaskStopped \<and> currentTask (state (snd (cmd_stop cfg d w))) = None
        \<and> fst (cmd_cancel w) = TaskCancelled \<and> currentTask (state (snd (cmd_cancel w))) = None"
    by (auto simp: cmd_stop_def cmd_cancel_def stopCurrentTask_def Let_def)
  have d: "\<not> isUnlocked now w \<longrightarrow>
        cmd_run cfg now d uuid chat body w = (LockedReply, w)
        \<and> cmd_continue cfg now d w = (LockedReply, w)
        \<and> callback_query cfg now d (ALLOWED_USER_ID cfg) (''CONTINUE:'' @ i) w = (CbBotIsLocked, w)"
    by (simp add: cmd_run_def cmd_continue_def callback_query_def startsWith_def)
  show ?thesis
    using a s h b c d by blast
qed

theorem safety_operations_ignore_gate_witness:
  "safety_operation CmdPause \<and> \<not> isUnlocked 5000 (locked_with Running)
   \<and> task_status (locked_with Running) = Some Running
   \<and> currentTask (state (locked_with Running)) = Some (task0\<lparr>status := Running\<rparr>)
   \<and> isAllowedUser cfg0 (from_id (operator_at 5000)) (chat_private (operator_at 5000))
   \<and> handle cfg0 (operator_at 5000) CmdStatus (locked_with Running)
       = (StatusPanel (task0\<lparr>status := Running\<rparr>) ControlPanel, locked_with Running)
   \<and> task_status (snd (cmd_pause cfg0 Unchanged (locked_with Running))) = Some Paused
   \<and> currentTask (state (snd (cmd_stop cfg0 Unchanged (locked_with Running)))) = None
   \<and> currentTask (state (snd (cmd_cancel (locked_with Running)))) = None
   \<and> cmd_continue cfg0 5000 Unchanged (locked_with Running) = (LockedReply, locked_with Running)
   \<and> fst (handle cfg0 (operator_at 5000) CmdPause (relock 900000 (locked_with Running)))
       = fst (handle cfg0 (operator_at 5000) CmdPause (locked_with Running))"
  using safety_operations_ignore_gate [where ev = CmdPause and w = "locked_with Running"
      and cfg = cfg0 and d = Unchanged and now = 5000 and e = "operator_at 5000" and u = 900000
      and t = "task0\<lparr>status := Running\<rparr>"]
  by (simp add: locked_with_def blank_def task_status_def isUnlocked_def isAllowedUser_def
      cfg0_def operator_at_def)

subsection \<open>The rate limit of \<open>/run\<close>\<close>

lemma args_empty: "command_args ''/run'' = []"
  by (simp add: command_args_def slice_from_def trim_def white_space_def)

lemma args_build: "command_args ''/run build'' = ''build''"
  by (simp add: command_args_def slice_from_def trim_def white_space_def)

lemma rate_w1_eq: "rate_w1 = unlocked_idle\<lparr>lastRequestTime := 10000\<rparr>"
  by (simp add: rate_w1_def cmd_run_def createTask_def args_empty isUnlocked_def rateLimitCheck_def
      RATE_LIMIT_MS_def unlocked_idle_def blank_def)

lemma rate_limited_2: "cmd_run cfg0 12000 Unchanged ''t1'' 42 ''/run build'' rate_w1 = (RateLimited, rate_w1)"
  by (simp add: rate_w1_eq cmd_run_def isUnlocked_def rateLimitCheck_def
      RATE_LIMIT_MS_def unlocked_idle_def blank_def)

lemma rate_w2_eq: "rate_w2 = unlocked_idle\<lparr>lastRequestTime := 10000\<rparr>"
  using rate_limited_2 by (simp add: rate_w2_def rate_w1_eq)

lemma start_lrt [simp]:
  "lastRequestTime (settled (startExecution cfg now d tx r w)) = lastRequestTime w"
proof (cases "currentTask (state w)")
  case None
  then show ?thesis by (simp add: startExecution_def)
next
  case (Some t)
  then show ?thesis by (rule start_common(8))
qed

lemma createTask_frame:
  "fst (createTask cfg now d uuid chat body w) \<noteq> RateLimited"
  "lastRequestTime (snd (createTask cfg now d uuid chat body w)) = lastRequestTime w"
  by (simp_all add: createTask_def Let_def)

lemma resume_lrt [simp]:
  "lastRequestTime (snd (resume cfg now d t ok w)) = lastRequestTime w"
  "ok \<noteq> RateLimited \<Longrightarrow> fst (resume cfg now d t ok w) \<noteq> RateLimited"
  by (simp_all add: resume_def Let_def)

lemma lrt_engine [simp]:
  "lastRequestTime (pauseCurrentTask cfg d w) = lastRequestTime w"
  "lastRequestTime (stopCurrentTask cfg d w) = lastRequestTime w"
  "lastRequestTime (pauseForQuantumTimeout cfg d w) = lastRequestTime w"
  "lastRequestTime (on_close cfg code d w) = lastRequestTime w"
  "lastRequestTime (on_error msg d w) = lastRequestTime w"
  "lastRequestTime (on_stdout_data tx w) = lastRequestTime w"
  "lastRequestTime (on_stderr_data tx w) = lastRequestTime w"
  "lastRequestTime (heartbeat d w) = lastRequestTime w"
  "lastRequestTime (on_notice d w) = lastRequestTime w"
  "lastRequestTime (on_shutdown w) = lastRequestTime w"
  by (simp_all add: pauseCurrentTask_def stopCurrentTask_def pauseForQuantumTimeout_def on_close_def
      on_error_def on_stdout_data_def on_stderr_data_def heartbeat_def on_notice_def on_shutdown_def
      Let_def split: option.splits delivery.splits)

lemma lrt_callback:
  "lastRequestTime (snd (callback_query cfg now d uid dat w)) = lastRequestTime w
   \<and> fst (callback_query cfg now d uid dat w) \<noteq> RateLimited"
  by (auto simp: callback_query_def split: option.splits)

text \<open>
  Claim C10, amended. A request \<open>/run\<close> made with the access gate unlocked less than 3000 ms
  after the last request that passed the rate check is rejected with the rate-limit
  message and changes nothing, not even \<open>lastRequestTime\<close>; a request that passes the
  check stores its time there, whatever its later guards decide; a request made with
  the access gate locked is rejected before the check and leaves \<open>lastRequestTime\<close> alone. No
  other event answers with the rate-limit message or changes \<open>lastRequestTime\<close>.
\<close>

theorem run_rate_limit:
  "(isUnlocked now w \<and> now - lastRequestTime w < RATE_LIMIT_MS \<longrightarrow>
      cmd_run cfg now d uuid chat body w = (RateLimited, w))
   \<and> (isUnlocked now w \<and> \<not> now - lastRequestTime w < RATE_LIMIT_MS \<longrightarrow>
      fst (cmd_run cfg now d uuid chat body w) \<noteq> RateLimited
      \<and> lastRequestTime (snd (cmd_run cfg now d uuid chat body w)) = now)
   \<and> (\<not> isUnlocked now w \<longrightarrow> cmd_run cfg now d uuid chat body w = (LockedReply, w))
   \<and> (\<not> is_run ev \<longrightarrow>
      fst (handle cfg e ev w) \<noteq> RateLimited
      \<and> lastRequestTime (step cfg (e, ev) w) = lastRequestTime w)"
proof -
  have a: "isUnlocked now w \<and> now - lastRequestTime w < RATE_LIMIT_MS \<longrightarrow>
      cmd_run cfg now d uuid chat body w = (RateLimited, w)"
    by (simp add: cmd_run_def rateLimitCheck_def)
  have b: "isUnlocked now w \<and> \<not> now - lastRequestTime w < RATE_LIMIT_MS \<longrightarrow>
      fst (cmd_run cfg now d uuid chat body w) \<noteq> RateLimited
      \<and> lastRequestTime (snd (cmd_run cfg now d uuid chat body w)) = now"
    by (auto simp: cmd_run_def rateLimitCheck_def isUnlocked_def createTask_frame
        split: option.splits)
  have c: "\<not> isUnlocked now w \<longrightarrow> cmd_run cfg now d uuid chat body w = (LockedReply, w)"
    by (simp add: cmd_run_def)
  have d: "\<not> is_run ev \<longrightarrow>
      fst (handle cfg e ev w) \<noteq> RateLimited
      \<and> lastRequestTime (step cfg (e, ev) w) = lastRequestTime w"
  proof (cases ev)
    case CmdContinue
    then show ?thesis
      by (auto simp: step_def handle_def cmd_continue_def split: option.splits)
  next
    case (CallbackQuery dat)
    then show ?thesis
      using lrt_callback [of cfg "at_time e" "pushed e" "from_id e" dat w]
      by (simp add: step_def handle_def)
  qed (auto simp: step_def handle_def cmd_start_def cmd_unlock_def cmd_lock_def cmd_status_def
        cmd_stop_def cmd_cancel_def cmd_pause_def Let_def split: option.splits)
  show ?thesis
    using a b c d by blast
qed

theorem run_rate_limit_witness:
  "isUnlocked 12000 rate_w1 \<and> 12000 - lastRequestTime rate_w1 < RATE_LIMIT_MS
   \<and> cmd_run cfg0 12000 Unchanged ''t1'' 42 ''/run build'' rate_w1 = (RateLimited, rate_w1)
   \<and> \<not> is_run CmdPause
   \<and> lastRequestTime (step cfg0 (operator_at 12000, CmdPause) rate_w1) = lastRequestTime rate_w1"
  using run_rate_limit [where now = 12000 and w = rate_w1 and cfg = cfg0 and d = Unchanged
      and uuid = "''t1''" and chat = 42 and body = "''/run build''" and ev = CmdPause
      and e = "operator_at 12000"]
  by (simp add: rate_w1_eq isUnlocked_def RATE_LIMIT_MS_def unlocked_idle_def blank_def)

text \<open>The claim as it is written fails for two requests that are 2000 ms apart with the
  gate unlocked and no task: the request at time 12000 is rejected by the rate limit,
  which does not store its time, and the request at time 14000 starts a task.\<close>

theorem run_rate_limit_counterexample:
  "fst (cmd_run cfg0 12000 Unchanged ''t1'' 42 ''/run build'' rate_w1) = RateLimited
   \<and> 14000 - 12000 < RATE_LIMIT_MS
   \<and> isUnlocked 14000 rate_w2 \<and> currentTask (state rate_w2) = None
   \<and> fst (cmd_run cfg0 14000 Unchanged ''t1'' 42 ''/run build'' rate_w2) = Starting ''build''"
  using rate_limited_2
  by (simp add: rate_w2_eq rate_w1_eq cmd_run_def createTask_def args_build isUnlocked_def
      rateLimitCheck_def RATE_LIMIT_MS_def unlocked_idle_def blank_def Let_def)

subsection \<open>The timers\<close>

text \<open>Every handler keeps \<open>timers_sound\<close>: each transition that leaves \<open>Running\<close>
  calls \<open>stopTimers\<close> first, and \<open>startTimers\<close> is reached only from a state that is
  not \<open>Running\<close>, where no timer is set.\<close>

lemma quiet_sound: "quiet w \<Longrightarrow> timers_sound w"
  by (simp add: quiet_def timers_sound_def)

lemma sound_stop: "timers_sound w \<Longrightarrow> quiet (stopTimers w)"
  by (auto simp: quiet_def timers_sound_def)

lemma sound_not_running: "timers_sound w \<Longrightarrow> task_status w \<noteq> Some Running \<Longrightarrow> quiet w"
  by (auto simp: quiet_def timers_sound_def)

lemma quiet_frames [simp]:
  "quiet (saveState w) = quiet w"
  "quiet (update_task f w) = quiet w"
  "quiet (set_task t w) = quiet w"
  "quiet (killCurrent sg w) = quiet w"
  "quiet (sendOrEditStatusMessage d w) = quiet w"
  by (simp_all add: quiet_def)

lemma quiet_engine:
  assumes "timers_sound w"
  shows "quiet (pauseCurrentTask cfg d w)" "quiet (stopCurrentTask cfg d w)"
    "quiet (pauseForQuantumTimeout cfg d w)" "quiet (on_close cfg code d w)"
    "quiet (on_error msg d w)" "quiet (on_shutdown w)" "quiet (snd (cmd_cancel w))"
proof -
  have q: "quiet (stopTimers w)"
    using assms by (rule sound_stop)
  have q': "quiet (stopTimers (w\<lparr>currentProcess := None\<rparr>))"
    "quiet (stopTimers (w\<lparr>outputBuffer := b, currentProcess := None\<rparr>))" for b
    using assms by (auto simp: quiet_def timers_sound_def)
  show "quiet (pauseCurrentTask cfg d w)" "quiet (stopCurrentTask cfg d w)"
    "quiet (pauseForQuantumTimeout cfg d w)"
    using q
    by (simp_all add: pauseCurrentTask_def stopCurrentTask_def pauseForQuantumTimeout_def
        Let_def split: option.splits)
  show "quiet (snd (cmd_cancel w))"
    using q sound_not_running [OF assms]
    by (simp add: cmd_cancel_def Let_def task_status_def split: option.splits)
  show "quiet (on_close cfg code d w)" "quiet (on_error msg d w)"
    using q' by (simp_all add: on_close_def on_error_def Let_def split: option.splits)
  show "quiet (on_shutdown w)"
    using q by (simp add: on_shutdown_def Let_def quiet_def split: option.splits)
qed

lemma sound_same:
  assumes "timers_sound w"
    and "heartbeatInterval v = heartbeatInterval w" "quantumTimer v = quantumTimer w"
    and "activeIntervals v = activeIntervals w" "activeTimeouts v = activeTimeouts w"
    and "nextTimer v = nextTimer w" "task_status v = task_status w"
  shows "timers_sound v"
  using assms by (simp add: timers_sound_def)

lemma sound_start:
  assumes "quiet w" "currentTask (state w) = Some t"
  shows "timers_sound (settled (startExecution cfg now d tx r w))"
proof (cases "spawnThrows w (shellCommand (if r then buildContinuationPrompt cfg t else tx))")
  case True
  show ?thesis
    using assms(1) start_throws(4-8) [OF assms(2) True, of now d]
    by (simp add: timers_sound_def quiet_def)
next
  case False
  show ?thesis
    using assms(1) start_returns(4-8) [OF assms(2) False, of now d]
      start_common(1) [OF assms(2), of cfg now d tx r]
    by (simp add: timers_sound_def quiet_def)
qed

lemma sound_resume:
  assumes "timers_sound w" "currentTask (state w) = Some t" "status t = Paused"
  shows "timers_sound (snd (resume cfg now d t ok w))"
proof -
  let ?w1 = "saveState (update_task (\<lambda>t. t\<lparr>continuationCount := continuationCount t + 1\<rparr>) w)"
  have q: "quiet ?w1"
    using sound_not_running [OF assms(1)] assms(2,3) by (simp add: task_status_def)
  have t: "currentTask (state ?w1) = Some (t\<lparr>continuationCount := continuationCount t + 1\<rparr>)"
    using assms(2) by simp
  show ?thesis
    using sound_start [OF q t] by (simp add: resume_def Let_def)
qed

lemma sound_create:
  assumes "timers_sound w" "task_status w \<noteq> Some Running"
  shows "timers_sound (snd (createTask cfg now d uuid chat body w))"
proof (cases "command_args body = []")
  case True
  then show ?thesis using assms(1) by (simp add: createTask_def)
next
  case False
  let ?w2 = "saveState (set_task (Some (newTask cfg now uuid chat (command_args body))) w)"
  have q: "quiet ?w2"
    using sound_not_running [OF assms] by simp
  have t: "currentTask (state ?w2) = Some (newTask cfg now uuid chat (command_args body))"
    by simp
  show ?thesis
    using False sound_start [OF q t] by (simp add: createTask_def Let_def)
qed

lemma sound_run:
  assumes "timers_sound w"
  shows "timers_sound (snd (cmd_run cfg now d uuid chat body w))"
proof -
  have s: "timers_sound (w\<lparr>lastRequestTime := now\<rparr>)"
    using assms by (rule sound_same) (simp_all add: task_status_def)
  have "timers_sound (snd (createTask cfg now d uuid chat body (w\<lparr>lastRequestTime := now\<rparr>)))"
    if "task_status w \<noteq> Some Running"
    using that by (intro sound_create [OF s]) (simp add: task_status_def)
  then show ?thesis
    using assms s
    by (auto simp: cmd_run_def rateLimitCheck_def active_def task_status_def split: option.splits)
qed

lemma sound_callback:
  assumes "timers_sound w"
  shows "timers_sound (snd (callback_query cfg now d uid dat w))"
proof -
  have a: "timers_sound (sendOrEditStatusMessage d w)"
    using assms by (rule sound_same) simp_all
  have b: "timers_sound (saveState (w\<lparr>state := (state w)\<lparr>unlockedUntil := 0\<rparr>\<rparr>))"
    using assms by (rule sound_same) (simp_all add: task_status_def)
  have c: "timers_sound (stopCurrentTask cfg d w)" "timers_sound (pauseCurrentTask cfg d w)"
    using quiet_engine(1,2) [OF assms] by (simp_all add: quiet_sound)
  have r: "timers_sound (snd (resume cfg now d t CbContinuing w))"
    if "currentTask (state w) = Some t" "status t = Paused" for t
    using sound_resume [OF assms that] .
  show ?thesis
    using assms a b c r
    by (auto simp: callback_query_def split: option.splits)
qed

lemma sound_step:
  assumes "timers_sound w"
  shows "timers_sound (step cfg x w)"
proof -
  obtain e ev where x: "x = (e, ev)"
    by (cases x)
  have q: "quiet v \<Longrightarrow> timers_sound v" for v
    by (rule quiet_sound)
  show ?thesis
  proof (cases ev)
    case CmdStart
    then show ?thesis using assms x by (simp add: step_def handle_def cmd_start_def)
  next
    case (CmdUnlock tx)
    have "timers_sound (saveState (w\<lparr>state := (state w)\<lparr>unlockedUntil := u\<rparr>\<rparr>))" for u
      using assms by (rule sound_same) (simp_all add: task_status_def)
    then show ?thesis
      using assms x CmdUnlock
      by (simp add: step_def handle_def cmd_unlock_def Let_def split: option.splits)
  next
    case CmdLock
    have "timers_sound (saveState (w\<lparr>state := (state w)\<lparr>unlockedUntil := u\<rparr>\<rparr>))" for u
      using assms by (rule sound_same) (simp_all add: task_status_def)
    then show ?thesis
      using assms x CmdLock by (simp add: step_def handle_def cmd_lock_def)
  next
    case (CmdRun tx)
    then show ?thesis
      using assms x sound_run [OF assms] by (simp add: step_def handle_def)
  next
    case CmdStatus
    then show ?thesis
      using assms x by (simp add: step_def handle_def cmd_status_def split: option.splits)
  next
    case CmdContinue
    then show ?thesis
      using assms x sound_resume [OF assms]
      by (auto simp: step_def handle_def cmd_continue_def split: option.splits)
  next
    case CmdStop
    then show ?thesis
      using assms x q [OF quiet_engine(2) [OF assms]]
      by (simp add: step_def handle_def cmd_stop_def split: option.splits)
  next
    case CmdCancel
    then show ?thesis
      using assms x q [OF quiet_engine(7) [OF assms]] by (simp add: step_def handle_def)
  next
    case CmdPause
    then show ?thesis
      using assms x q [OF quiet_engine(1) [OF assms]]
      by (simp add: step_def handle_def cmd_pause_def)
  next
    case (CallbackQuery dat)
    then show ?thesis
      using assms x sound_callback [OF assms] by (simp add: step_def handle_def)
  next
    case (StdoutData tx)
    have "timers_sound (on_stdout_data tx w)"
      using assms by (rule sound_same) (simp_all add: on_stdout_data_def Let_def task_status_def)
    then show ?thesis
      using x StdoutData by (simp add: step_def handle_def)
  next
    case (StderrData tx)
    have "timers_sound (on_stderr_data tx w)"
      using assms by (rule sound_same) (simp_all add: on_stderr_data_def task_status_def)
    then show ?thesis
      using x StderrData by (simp add: step_def handle_def)
  next
    case (ProcError msg)
    then show ?thesis
      using x q [OF quiet_engine(5) [OF assms]] by (simp add: step_def handle_def)
  next
    case (ProcClose code)
    then show ?thesis
      using x q [OF quiet_engine(4) [OF assms]] by (simp add: step_def handle_def)
  next
    case (HeartbeatTick n)
    have "timers_sound (heartbeat d w)" for d
      using assms by (rule sound_same) (simp_all add: heartbeat_def)
    then show ?thesis
      using assms x HeartbeatTick by (simp add: step_def handle_def)
  next
    case (QuantumExpiry n)
    have "quiet (pauseForQuantumTimeout cfg d (w\<lparr>activeTimeouts := activeTimeouts w - {n}\<rparr>))" for d
      using assms
      by (auto simp: pauseForQuantumTimeout_def Let_def quiet_def timers_sound_def
          split: option.splits)
    then show ?thesis
      using assms x QuantumExpiry q by (simp add: step_def handle_def)
  next
    case Notice
    have "timers_sound (on_notice d (w\<lparr>noticePending := False\<rparr>))" for d
      using assms
      by (rule sound_same) (simp_all add: on_notice_def task_status_def split: option.splits delivery.splits)
    then show ?thesis
      using assms x Notice by (simp add: step_def handle_def)
  next
    case Shutdown
    then show ?thesis
      using x q [OF quiet_engine(6) [OF assms]] by (simp add: step_def handle_def)
  next
    case (DiskFault b)
    have "timers_sound (w\<lparr>diskWritable := \<not> b\<rparr>)"
      using assms by (rule sound_same) (simp_all add: task_status_def)
    then show ?thesis
      using x DiskFault by (simp add: step_def handle_def)
  qed
qed

lemma sound_restart: "timers_sound (restart p)"
proof -
  have "quiet (restart p)"
    by (simp add: restart_def main_def loadState_def boot_def quiet_def Let_def
        split: option.splits stored.splits)
  then show ?thesis by (rule quiet_sound)
qed

lemma sound_run_all: "timers_sound w \<Longrightarrow> timers_sound (run cfg evs w)"
  by (induction evs arbitrary: w) (simp_all add: sound_step)

text \<open>A handler cancels timers or creates timers with new numbers: it never brings back
  a timer that was numbered before.\<close>

lemma only_fresh_refl [simp]: "only_fresh w w"
  by (auto simp: only_fresh_def)

lemma only_fresh_trans: "only_fresh w v \<Longrightarrow> only_fresh v u \<Longrightarrow> only_fresh w u"
  by (fastforce simp: only_fresh_def)

lemma only_fresh_same:
  assumes "nextTimer v = nextTimer w" "activeIntervals v \<subseteq> activeIntervals w"
    "activeTimeouts v \<subseteq> activeTimeouts w"
  shows "only_fresh w v"
  using assms by (auto simp: only_fresh_def)

lemma fresh_engine:
  "only_fresh w (pauseCurrentTask cfg d w)" "only_fresh w (stopCurrentTask cfg d w)"
  "only_fresh w (pauseForQuantumTimeout cfg d w)" "only_fresh w (on_close cfg code d w)"
  "only_fresh w (on_error msg d w)" "only_fresh w (on_shutdown w)" "only_fresh w (snd (cmd_cancel w))"
  "only_fresh w (on_stdout_data tx w)" "only_fresh w (on_stderr_data tx w)"
  "only_fresh w (heartbeat d w)" "only_fresh w (on_notice d w)"
  by (rule only_fresh_same;
      auto simp: pauseCurrentTask_def stopCurrentTask_def pauseForQuantumTimeout_def on_close_def
        on_error_def on_shutdown_def cmd_cancel_def on_stdout_data_def on_stderr_data_def
        heartbeat_def on_notice_def Let_def split: option.splits delivery.splits)+

lemma fresh_start: "only_fresh w (settled (startExecution cfg now d tx r w))"
proof (cases "currentTask (state w)")
  case None
  then show ?thesis by (simp add: startExecution_def)
next
  case (Some t)
  show ?thesis
  proof (cases "spawnThrows w (shellCommand (if r then buildContinuationPrompt cfg t else tx))")
    case True
    show ?thesis
      using start_throws(6-8) [OF Some True, of now d] by (simp add: only_fresh_def)
  next
    case False
    show ?thesis
      using start_returns(6-8) [OF Some False, of now d] by (auto simp: only_fresh_def)
  qed
qed

lemma fresh_resume: "only_fresh w (snd (resume cfg now d t ok w))"
  using fresh_start [of "saveState (update_task (\<lambda>t. t\<lparr>continuationCount := continuationCount t + 1\<rparr>) w)"
      cfg now d "taskText t" True]
  by (simp add: resume_def Let_def only_fresh_def)

lemma fresh_create: "only_fresh w (snd (createTask cfg now d uuid chat body w))"
  using fresh_start [of "saveState (set_task (Some (newTask cfg now uuid chat (command_args body))) w)"
      cfg now d "command_args body" False]
  by (simp add: createTask_def Let_def only_fresh_def)

lemma fresh_run: "only_fresh w (snd (cmd_run cfg now d uuid chat body w))"
  using fresh_create [of "w\<lparr>lastRequestTime := now\<rparr>" cfg now d uuid chat body]
  by (auto simp: cmd_run_def rateLimitCheck_def only_fresh_def split: option.splits)

lemma fresh_callback: "only_fresh w (snd (callback_query cfg now d uid dat w))"
  using fresh_engine(1,2) [of w cfg d] fresh_resume [of w cfg now d _ CbContinuing]
  by (auto simp: callback_query_def only_fresh_def split: option.splits)

lemma fresh_step: "only_fresh w (step cfg x w)"
proof -
  obtain e ev where x: "x = (e, ev)"
    by (cases x)
  show ?thesis
  proof (cases ev)
    case (CmdRun tx)
    then show ?thesis using x fresh_run by (simp add: step_def handle_def)
  next
    case CmdContinue
    then show ?thesis
      using x fresh_resume [of w cfg "at_time e" "pushed e"]
      by (auto simp: step_def handle_def cmd_continue_def split: option.splits)
  next
    case (CallbackQuery dat)
    then show ?thesis using x fresh_callback by (simp add: step_def handle_def)
  next
    case (QuantumExpiry n)
    have "only_fresh w (pauseForQuantumTimeout cfg d (w\<lparr>activeTimeouts := activeTimeouts w - {n}\<rparr>))" for d
      using fresh_engine(3) [of "w\<lparr>activeTimeouts := activeTimeouts w - {n}\<rparr>" cfg d]
      by (auto simp: only_fresh_def)
    then show ?thesis using x QuantumExpiry by (simp add: step_def handle_def)
  next
    case Notice
    have "only_fresh w (on_notice d (w\<lparr>noticePending := False\<rparr>))" for d
      using fresh_engine(11) [of "w\<lparr>noticePending := False\<rparr>" d]
      by (auto simp: only_fresh_def)
    then show ?thesis using x Notice by (simp add: step_def handle_def)
  qed (use x fresh_engine [of w] in \<open>auto simp: step_def handle_def cmd_start_def cmd_unlock_def cmd_lock_def
        cmd_status_def cmd_stop_def cmd_pause_def Let_def only_fresh_def split: option.splits\<close>)
qed

lemma fresh_run_all: "only_fresh w (run cfg evs w)"
proof (induction evs arbitrary: w)
  case Nil
  show ?case by simp
next
  case (Cons x xs)
  show ?case
    using only_fresh_trans [OF fresh_step Cons] by simp
qed

subsection \<open>A burst after a restart\<close>

text \<open>The restarted bot holds \<open>task0\<close> paused; \<open>/continue\<close> starts a burst on it, and
  the burst runs until \<open>/pause\<close>.\<close>

lemma cfg0_fields [simp]: "ALLOWED_USER_ID cfg0 = 42" "WORKDIR cfg0 = ''/work''" "TAIL_LINES cfg0 = 20"
  by (simp_all add: cfg0_def)

lemma restart_quiet: "quiet (restart p)"
  by (simp add: restart_def main_def loadState_def boot_def quiet_def Let_def
      split: option.splits stored.splits)

lemma restart_crashed:
  "currentTask (state (restart crashed)) = Some (task0\<lparr>status := Paused\<rparr>)"
  "unlockedUntil (state (restart crashed)) = 900000"
  "nextTimer (restart crashed) = 0"
  "nextPid (restart crashed) = 0"
  "spawned (restart crashed) = []"
  "argLimit (restart crashed) = 131072"
  "outputBuffer (restart crashed) = []"
  "signalled (restart crashed) = []"
  by (simp_all add: restart_def main_def loadState_def boot_def crashed_def blank_def task0_def
      merge_loaded_def task_status_def Let_def)

lemma spawn_takes_first:
  "\<not> spawnThrows (restart crashed) (shellCommand (buildContinuationPrompt cfg0 (task0\<lparr>status := Paused\<rparr>)))"
  by (simp add: spawnThrows_def restart_crashed shellCommand_def escapePrompt_def prompt_shape
      task0_def cfg0_def newline_def fence_def slice_from_def)

lemma resumed_eq:
  "resumed = snd (resume cfg0 2000 Unchanged (task0\<lparr>status := Paused\<rparr>) (Continuing 1) (restart crashed))"
  by (simp add: resumed_def step_def handle_def operator_at_def isAllowedUser_def cfg0_def
      cmd_continue_def isUnlocked_def restart_crashed task0_def)

lemma resumed_task:
  "currentTask (state resumed) = Some (task0\<lparr>quantumStartedAt := 2000, continuationCount := 1\<rparr>)"
  using spawn_takes_first
  by (simp add: resumed_eq resume_def startExecution_def Let_def restart_crashed task0_def)

lemma resumed_facts:
  "task_status resumed = Some Running"
  "unlockedUntil (state resumed) = 900000"
  "outputBuffer resumed = []"
  "heartbeatInterval resumed = Some 0" "quantumTimer resumed = Some 1"
  "activeIntervals resumed = {0}" "activeTimeouts resumed = {1}"
  "nextTimer resumed = 2" "argLimit resumed = 131072"
  "currentProcess resumed = Some 0" "nextPid resumed = 1" "signalled resumed = []"
  "spawned resumed = [(0, shellCommand (buildContinuationPrompt cfg0 task0), ''/work'')]"
  using resume_common(2,7,9,10,11) [OF restart_crashed(1), of cfg0 2000 Unchanged "Continuing 1"]
    resume_returns [OF restart_crashed(1) spawn_takes_first, of 2000 Unchanged "Continuing 1"]
    restart_quiet [of crashed]
  by (simp_all add: resumed_eq restart_crashed quiet_def)


lemma allowed0 [simp]: "isAllowedUser cfg0 (from_id (operator_at t)) (chat_private (operator_at t))"
  by (simp add: isAllowedUser_def cfg0_def operator_at_def)

lemma op_fields [simp]: "at_time (operator_at t) = t" "pushed (operator_at t) = Unchanged"
  by (simp_all add: operator_at_def)

lemma resumed_step: "step cfg0 (operator_at 2000, CmdContinue) (restart crashed) = resumed"
  by (simp add: resumed_def)

lemma output_on_resumed:
  assumes "filter (\<lambda>l. l \<noteq> []) (split_on CHR 0x0A out) = ls" "length ls \<le> 1000"
  shows "outputBuffer (step cfg0 (operator_at 2500, StdoutData out) resumed) = ls"
proof -
  have "outputBuffer (foldl (\<lambda>v line. if line \<noteq> [] then pushLine line v else v) w xs)
      = outputBuffer w @ filter (\<lambda>l. l \<noteq> []) xs" for w xs
    by (induction xs arbitrary: w) (simp_all add: pushLine_def)
  then show ?thesis
    using assms by (simp add: step_def handle_def on_stdout_data_def Let_def resumed_facts)
qed

lemma burst_with_task:
  assumes "filter (\<lambda>l. l \<noteq> []) (split_on CHR 0x0A out) = ls" "length ls \<le> 20"
  shows "currentTask (state (run cfg0 (burst_with out) (restart crashed)))
     = Some (task0\<lparr>status := Paused, quantumStartedAt := 2000, lastTail := ls,
                  continuationCount := 1\<rparr>)"
proof -
  let ?w = "step cfg0 (operator_at 2500, StdoutData out) resumed"
  have b: "outputBuffer ?w = ls"
    using assms by (intro output_on_resumed) simp_all
  have t: "currentTask (state ?w) = currentTask (state resumed)"
    by (simp add: step_def handle_def on_stdout_data_def Let_def)
  have "currentTask (state (step cfg0 (operator_at 3000, CmdPause) ?w))
     = Some (task0\<lparr>status := Paused, quantumStartedAt := 2000, lastTail := ls,
                  continuationCount := 1\<rparr>)"
    using b t assms(2)
    by (simp add: step_def handle_def cmd_pause_def pauseCurrentTask_def task_status_def
        resumed_task Let_def tail_def slice_from_def task0_def)
  then show ?thesis
    by (simp add: burst_with_def resumed_step)
qed

lemma burst_with_facts:
  "task_status (run cfg0 (burst_with out) (restart crashed)) = Some Paused"
  "quiet (run cfg0 (burst_with out) (restart crashed))"
  "unlockedUntil (state (run cfg0 (burst_with out) (restart crashed))) = 900000"
  "nextTimer (run cfg0 (burst_with out) (restart crashed)) = 2"
  "nextPid (run cfg0 (burst_with out) (restart crashed)) = 1"
  "argLimit (run cfg0 (burst_with out) (restart crashed)) = 131072"
  "currentProcess (run cfg0 (burst_with out) (restart crashed)) = None"
  "spawned (run cfg0 (burst_with out) (restart crashed))
     = [(0, shellCommand (buildContinuationPrompt cfg0 task0), ''/work'')]"
  "signalled (run cfg0 (burst_with out) (restart crashed)) = [(0, SIGTERM)]"
proof -
  let ?w = "step cfg0 (operator_at 2500, StdoutData out) resumed"
  have f: "task_status ?w = Some Running" "unlockedUntil (state ?w) = 900000" "nextTimer ?w = 2"
    "argLimit ?w = 131072" "currentProcess ?w = Some 0" "spawned ?w = spawned resumed"
    "signalled ?w = []" "nextPid ?w = 1" "heartbeatInterval ?w = Some 0"
    "quantumTimer ?w = Some 1" "activeIntervals ?w = {0}" "activeTimeouts ?w = {1}"
    by (simp_all add: step_def handle_def on_stdout_data_def Let_def resumed_facts(2-)
        resumed_task task_status_def task0_def)
  have r: "run cfg0 (burst_with out) (restart crashed) = pauseCurrentTask cfg0 Unchanged ?w"
    using f(1) by (simp add: burst_with_def resumed_step step_def [of cfg0 "(operator_at 3000, CmdPause)"] handle_def cmd_pause_def)
  show "task_status (run cfg0 (burst_with out) (restart crashed)) = Some Paused"
    "quiet (run cfg0 (burst_with out) (restart crashed))"
    "unlockedUntil (state (run cfg0 (burst_with out) (restart crashed))) = 900000"
    "nextTimer (run cfg0 (burst_with out) (restart crashed)) = 2"
    "nextPid (run cfg0 (burst_with out) (restart crashed)) = 1"
    "argLimit (run cfg0 (burst_with out) (restart crashed)) = 131072"
    "currentProcess (run cfg0 (burst_with out) (restart crashed)) = None"
    "spawned (run cfg0 (burst_with out) (restart crashed))
       = [(0, shellCommand (buildContinuationPrompt cfg0 task0), ''/work'')]"
    "signalled (run cfg0 (burst_with out) (restart crashed)) = [(0, SIGTERM)]"
    unfolding r using f
    by (auto simp: pauseCurrentTask_def Let_def quiet_def task_status_def resumed_facts
        split: option.splits)
qed

subsection \<open>The end of the subprocess\<close>


text \<open>A failure to spawn that the runtime reports through the event \<open>error\<close> reaches the
  two listeners: the task becomes \<open>Error\<close> and both timers are cancelled, but
  \<open>lastTail\<close> stays what it was.\<close>

lemma error_listener_marks_error:
  assumes "currentTask (state w) = Some t"
  shows "task_status (step cfg (e, ProcError msg) w) = Some Error"
    and "heartbeatInterval (step cfg (e, ProcError msg) w) = None"
    and "quantumTimer (step cfg (e, ProcError msg) w) = None"
    and "map_option lastTail (currentTask (state (step cfg (e, ProcError msg) w)))
           = Some (lastTail t)"
    and "outputBuffer (step cfg (e, ProcError msg) w) = outputBuffer w @ [''[SPAWN ERROR] '' @ msg]"
  using assms
  by (cases "pushed e"; auto simp: step_def handle_def on_error_def Let_def task_status_def)+

text \<open>
  Claim C7, at the input where the code leaves it. After a restart the operator continues
  the paused task, the process writes the line \<open>ok\<close> and a NUL character, and the
  operator pauses: the last tail now holds a line with a NUL character. On the next
  \<open>/continue\<close> the reply goes out and \<open>startExecution\<close> sets the status to \<open>Running\<close>;
  then \<open>spawn\<close> throws on the command, and nothing catches it. The handler ends there:
  the task stays \<open>Running\<close>, not \<open>Error\<close>, with no new process, no timer, and so no
  listener that could ever end the burst.
\<close>

theorem spawn_throw_leaves_running:
  "map_option lastTail (currentTask (state paused_nul)) = Some [''ok'', [CHR 0x00]]
   \<and> task_status paused_nul = Some Paused
   \<and> isl (startExecution cfg0 5000 Unchanged ''build'' True
           (saveState (update_task (\<lambda>t. t\<lparr>continuationCount := continuationCount t + 1\<rparr>)
              paused_nul)))
   \<and> fst (handle cfg0 (operator_at 5000) CmdContinue paused_nul) = Continuing 2
   \<and> task_status (step cfg0 (operator_at 5000, CmdContinue) paused_nul) = Some Running
   \<and> currentProcess (step cfg0 (operator_at 5000, CmdContinue) paused_nul) = None
   \<and> spawned (step cfg0 (operator_at 5000, CmdContinue) paused_nul) = spawned paused_nul
   \<and> heartbeatInterval (step cfg0 (operator_at 5000, CmdContinue) paused_nul) = None
   \<and> quantumTimer (step cfg0 (operator_at 5000, CmdContinue) paused_nul) = None
   \<and> activeIntervals (step cfg0 (operator_at 5000, CmdContinue) paused_nul) = {}
   \<and> activeTimeouts (step cfg0 (operator_at 5000, CmdContinue) paused_nul) = {}"
proof -
  let ?t = "task0\<lparr>status := Paused, quantumStartedAt := 2000, lastTail := [''ok'', [CHR 0x00]],
                   continuationCount := 1\<rparr>"
  have t: "currentTask (state paused_nul) = Some ?t"
    unfolding paused_nul_def by (rule burst_with_task) simp_all
  have "[CHR 0x00] \<in> set (slice_from (- 20) (lastTail ?t))"
    by (simp add: slice_from_def)
  then have s: "spawnThrows paused_nul (shellCommand (buildContinuationPrompt cfg0 ?t))"
    by (rule nul_reaches_command) simp
  have f: "task_status paused_nul = Some Paused" "quiet paused_nul"
    "unlockedUntil (state paused_nul) = 900000" "currentProcess paused_nul = None"
    unfolding paused_nul_def by (rule burst_with_facts)+
  have h: "handle cfg0 (operator_at 5000) CmdContinue paused_nul
      = resume cfg0 5000 Unchanged ?t (Continuing 2) paused_nul"
    by (simp add: handle_def cmd_continue_def isUnlocked_def t f(3) task0_def)
  have b: "taskText ?t = ''build''"
    by (simp add: task0_def)
  show ?thesis
    using resume_common(1,2) [OF t, of cfg0 5000 Unchanged "Continuing 2"]
      resume_throws(1) [OF t s, of 5000 Unchanged]
      resume_throws(2-8) [OF t s, of 5000 Unchanged "Continuing 2"] f b
    by (simp add: step_def h t quiet_def)
qed

subsection \<open>Continuing a paused task\<close>

text \<open>
  Claim C8, amended. With the access gate unlocked, \<open>/continue\<close> on a paused task (and
  the button \<open>CONTINUE\<close> that names it) makes the task \<open>Running\<close>, sets
  \<open>quantumStartedAt\<close> to the clock, adds one to \<open>continuationCount\<close> and empties the
  output buffer. The command of the new burst is \<open>claude -p\<close> on the quoted continuation
  prompt, with the error stream joined to the output; the prompt is built from the
  description of the task, the working directory and the last 20 lines of \<open>lastTail\<close>,
  and differs from the bare description. When \<open>spawn\<close> takes this command, the process
  is spawned on it in the working directory and becomes the current process.
\<close>

theorem continue_resumes_with_prompt:
  "isUnlocked now w \<and> currentTask (state w) = Some t \<and> status t = Paused
     \<and> (x = cmd_continue cfg now d w
          \<or> x = callback_query cfg now d (ALLOWED_USER_ID cfg) (''CONTINUE:'' @ i) w
             \<and> callback_task_id (''CONTINUE:'' @ i) = Some (id_task t)) \<longrightarrow>
   (let prompt =
         ''CONTINUATION PROMPT - Task was paused due to time limit.'' @ newline @ newline
         @ ''Original task: '' @ taskText t @ newline @ newline
         @ ''Working directory: '' @ WORKDIR cfg @ newline @ newline
         @ ''Last output before pause:'' @ newline @ fence @ newline
         @ join newline (slice_from (- 20) (lastTail t)) @ newline @ fence @ newline @ newline
         @ ''Please continue the task from where it left off. Maintain consistency with previous work.'';
        command =
         ''claude -p '' @ [CHR 0x27]
         @ concat (map (\<lambda>c. if c = CHR 0x27 then [CHR 0x27, CHR 0x5C, CHR 0x27, CHR 0x27] else [c])
                     prompt)
         @ [CHR 0x27] @ '' 2>&1''
    in continued (fst x) \<and>
       task_status (snd x) = Some Running \<and>
       map_option quantumStartedAt (currentTask (state (snd x))) = Some now \<and>
       map_option continuationCount (currentTask (state (snd x))) = Some (continuationCount t + 1) \<and>
       outputBuffer (snd x) = [] \<and>
       prompt \<noteq> taskText t \<and>
       (\<not> spawnThrows w command \<longrightarrow>
          currentProcess (snd x) = Some (nextPid w) \<and>
          spawned (snd x) = spawned w @ [(nextPid w, command, WORKDIR cfg)]))"
proof (intro impI)
  assume h: "isUnlocked now w \<and> currentTask (state w) = Some t \<and> status t = Paused
     \<and> (x = cmd_continue cfg now d w
          \<or> x = callback_query cfg now d (ALLOWED_USER_ID cfg) (''CONTINUE:'' @ i) w
             \<and> callback_task_id (''CONTINUE:'' @ i) = Some (id_task t))"
  then have t: "currentTask (state w) = Some t"
    by simp
  from h have "x = resume cfg now d t (Continuing (continuationCount t + 1)) w
      \<or> x = resume cfg now d t CbContinuing w"
    by (auto simp: cmd_continue_def callback_query_def startsWith_def)
  then have "\<exists>ok. continued ok \<and> x = resume cfg now d t ok w"
    using continued.simps(1) continued.simps(2) by blast
  then obtain ok where ok: "continued ok" "x = resume cfg now d t ok w"
    by blast
  have r: "\<not> spawnThrows w (shellCommand (buildContinuationPrompt cfg t)) \<longrightarrow>
      currentProcess (snd x) = Some (nextPid w) \<and>
      spawned (snd x)
        = spawned w @ [(nextPid w, shellCommand (buildContinuationPrompt cfg t), WORKDIR cfg)]"
    using ok(2) resume_returns(1,2) [OF t, of cfg now d ok] by simp
  show "let prompt =
         ''CONTINUATION PROMPT - Task was paused due to time limit.'' @ newline @ newline
         @ ''Original task: '' @ taskText t @ newline @ newline
         @ ''Working directory: '' @ WORKDIR cfg @ newline @ newline
         @ ''Last output before pause:'' @ newline @ fence @ newline
         @ join newline (slice_from (- 20) (lastTail t)) @ newline @ fence @ newline @ newline
         @ ''Please continue the task from where it left off. Maintain consistency with previous work.'';
        command =
         ''claude -p '' @ [CHR 0x27]
         @ concat (map (\<lambda>c. if c = CHR 0x27 then [CHR 0x27, CHR 0x5C, CHR 0x27, CHR 0x27] else [c])
                     prompt)
         @ [CHR 0x27] @ '' 2>&1''
    in continued (fst x) \<and>
       task_status (snd x) = Some Running \<and>
       map_option quantumStartedAt (currentTask (state (snd x))) = Some now \<and>
       map_option continuationCount (currentTask (state (snd x))) = Some (continuationCount t + 1) \<and>
       outputBuffer (snd x) = [] \<and>
       prompt \<noteq> taskText t \<and>
       (\<not> spawnThrows w command \<longrightarrow>
          currentProcess (snd x) = Some (nextPid w) \<and>
          spawned (snd x) = spawned w @ [(nextPid w, command, WORKDIR cfg)])"
    unfolding Let_def prompt_shape [symmetric] escapePrompt_def [symmetric]
    using ok resume_common(1-4,7) [OF t, of cfg now d ok] r prompt_not_bare [of cfg t]
    by (simp add: shellCommand_def)
qed

theorem continue_resumes_with_prompt_witness:
  "isUnlocked 5000 paused_talk \<and> task_status paused_talk = Some Paused
   \<and> outputBuffer paused_talk = [''old'']
   \<and> task_status (snd (cmd_continue cfg0 5000 Unchanged paused_talk)) = Some Running
   \<and> map_option quantumStartedAt (currentTask (state (snd (cmd_continue cfg0 5000 Unchanged paused_talk))))
       = Some 5000
   \<and> outputBuffer (snd (cmd_continue cfg0 5000 Unchanged paused_talk)) = []
   \<and> currentProcess (snd (cmd_continue cfg0 5000 Unchanged paused_talk)) = Some 0
   \<and> spawned (snd (cmd_continue cfg0 5000 Unchanged paused_talk))
       = [(0,
           ''claude -p '' @ [CHR 0x27]
           @ ''CONTINUATION PROMPT - Task was paused due to time limit.'' @ [CHR 0x0A, CHR 0x0A]
           @ ''Original task: build'' @ [CHR 0x0A, CHR 0x0A]
           @ ''Working directory: /work'' @ [CHR 0x0A, CHR 0x0A]
           @ ''Last output before pause:'' @ [CHR 0x0A, CHR 0x60, CHR 0x60, CHR 0x60, CHR 0x0A]
           @ ''it'' @ [CHR 0x27, CHR 0x5C, CHR 0x27, CHR 0x27] @ ''s'' @ [CHR 0x0A] @ ''done''
           @ [CHR 0x0A, CHR 0x60, CHR 0x60, CHR 0x60, CHR 0x0A, CHR 0x0A]
           @ ''Please continue the task from where it left off. Maintain consistency with previous work.''
           @ [CHR 0x27] @ '' 2>&1'',
           ''/work'')]"
  using continue_resumes_with_prompt [where now = 5000 and w = paused_talk
      and t = "task0\<lparr>status := Paused, lastTail := [''it'' @ [CHR 0x27] @ ''s'', ''done'']\<rparr>"
      and cfg = cfg0 and d = Unchanged
      and x = "cmd_continue cfg0 5000 Unchanged paused_talk"]
  by (simp add: paused_talk_def blank_def task_status_def isUnlocked_def task0_def cfg0_def
      spawnThrows_def slice_from_def newline_def fence_def Let_def)

text \<open>The claim as it is written fails when the access gate is locked: the task is paused
  and \<open>/continue\<close> answers that the bot is locked and leaves the task paused.\<close>

theorem continue_locked_counterexample:
  "task_status (locked_with Paused) = Some Paused
   \<and> handle cfg0 (operator_at 5000) CmdContinue (locked_with Paused)
       = (LockedReply, locked_with Paused)"
  by (simp add: handle_def cmd_continue_def isUnlocked_def isAllowedUser_def cfg0_def
      operator_at_def locked_with_def blank_def task_status_def)

subsection \<open>Quantum expiry and pause\<close>




subsection \<open>No timer across bursts\<close>

lemma spawn_takes_ok:
  "\<not> spawnThrows paused_ok
     (shellCommand (buildContinuationPrompt cfg0
        (task0\<lparr>status := Paused, quantumStartedAt := 2000, lastTail := [''ok''],
               continuationCount := 1\<rparr>)))"
  unfolding paused_ok_def
  by (simp add: spawnThrows_def burst_with_facts shellCommand_def escapePrompt_def prompt_shape
      task0_def newline_def fence_def slice_from_def)

text \<open>
  Claim C5. \<open>stopTimers\<close> is idempotent and does nothing when both handles are clear. In
  every state the bot reaches from a restart by handling events one after the other, the
  runtime holds exactly the timers of the two handles, and none once the task is not
  \<open>Running\<close>: the timers of a burst are cancelled by the transition that ends it. So an
  accepted \<open>/continue\<close> finds no timer. After it the runtime holds the two timers it has
  just created and no other, or none at all when \<open>spawn\<close> throws; and however the run
  goes on from there, a timer that was numbered before the \<open>/continue\<close> is not held by
  the runtime, and its firing changes nothing.
\<close>

theorem continue_starts_fresh_timers:
  "stopTimers (stopTimers v) = stopTimers v
   \<and> (heartbeatInterval v = None \<and> quantumTimer v = None \<longrightarrow> stopTimers v = v)
   \<and> (let w = run cfg evs (restart p);
          w' = snd (cmd_continue cfg now d w);
          w'' = run cfg evs' w'
      in timers_sound w
         \<and> (task_status w \<noteq> Some Running \<longrightarrow> quiet w)
         \<and> (isUnlocked now w \<and> currentTask (state w) = Some t \<and> status t = Paused \<longrightarrow>
              task_status w' = Some Running
              \<and> (\<not> spawnThrows w (shellCommand (buildContinuationPrompt cfg t)) \<longrightarrow>
                   activeIntervals w' = {nextTimer w} \<and> heartbeatInterval w' = Some (nextTimer w)
                   \<and> activeTimeouts w' = {Suc (nextTimer w)}
                   \<and> quantumTimer w' = Some (Suc (nextTimer w)))
              \<and> (spawnThrows w (shellCommand (buildContinuationPrompt cfg t)) \<longrightarrow> quiet w')
              \<and> (n < nextTimer w \<longrightarrow>
                   n \<notin> activeIntervals w'' \<and> n \<notin> activeTimeouts w''
                   \<and> step cfg (e, HeartbeatTick n) w'' = w''
                   \<and> step cfg (e, QuantumExpiry n) w'' = w'')))"
proof -
  define w where "w = run cfg evs (restart p)"
  define w' where "w' = snd (cmd_continue cfg now d w)"
  define w'' where "w'' = run cfg evs' w'"
  have s: "timers_sound w"
    unfolding w_def by (rule sound_run_all [OF sound_restart])
  have a: "quiet w" if "task_status w \<noteq> Some Running"
    using sound_not_running [OF s that] .
  have b: "task_status w' = Some Running
      \<and> (\<not> spawnThrows w (shellCommand (buildContinuationPrompt cfg t)) \<longrightarrow>
           activeIntervals w' = {nextTimer w} \<and> heartbeatInterval w' = Some (nextTimer w)
           \<and> activeTimeouts w' = {Suc (nextTimer w)}
           \<and> quantumTimer w' = Some (Suc (nextTimer w)))
      \<and> (spawnThrows w (shellCommand (buildContinuationPrompt cfg t)) \<longrightarrow> quiet w')
      \<and> (n < nextTimer w \<longrightarrow>
           n \<notin> activeIntervals w'' \<and> n \<notin> activeTimeouts w''
           \<and> step cfg (e, HeartbeatTick n) w'' = w''
           \<and> step cfg (e, QuantumExpiry n) w'' = w'')"
    if h: "isUnlocked now w" "currentTask (state w) = Some t" "status t = Paused"
  proof -
    have q: "quiet w"
      using a h(2,3) by (simp add: task_status_def)
    have r: "w' = snd (resume cfg now d t (Continuing (continuationCount t + 1)) w)"
      using h by (simp add: w'_def cmd_continue_def)
    have 1: "task_status w' = Some Running"
      unfolding r by (rule resume_common(2) [OF h(2)])
    have 2: "activeIntervals w' = {nextTimer w} \<and> heartbeatInterval w' = Some (nextTimer w)
           \<and> activeTimeouts w' = {Suc (nextTimer w)}
           \<and> quantumTimer w' = Some (Suc (nextTimer w))"
      if "\<not> spawnThrows w (shellCommand (buildContinuationPrompt cfg t))"
      using resume_returns(3-6) [OF h(2) that, of now d "Continuing (continuationCount t + 1)"] q
      by (simp add: r quiet_def)
    have 3: "quiet w'" if "spawnThrows w (shellCommand (buildContinuationPrompt cfg t))"
      using resume_throws(4-7) [OF h(2) that, of now d "Continuing (continuationCount t + 1)"] q
      by (simp add: r quiet_def)
    have "only_fresh w w'"
      unfolding r by (rule fresh_resume)
    then have "only_fresh w w''"
      unfolding w''_def by (rule only_fresh_trans) (rule fresh_run_all)
    then have 4: "n \<notin> activeIntervals w'' \<and> n \<notin> activeTimeouts w''" if "n < nextTimer w"
      using q that by (auto simp: only_fresh_def quiet_def)
    have 5: "step cfg (e, HeartbeatTick n) w'' = w'' \<and> step cfg (e, QuantumExpiry n) w'' = w''"
      if "n < nextTimer w"
      using 4 [OF that] by (simp add: step_def handle_def)
    show ?thesis
      using 1 2 3 4 5 by blast
  qed
  show ?thesis
    unfolding w_def [symmetric] w'_def [symmetric] w''_def [symmetric] Let_def
    using s a b stopTimers_idem [of v] stopTimers_stopped [of v] by blast
qed


theorem continue_starts_fresh_timers_witness:
  "isUnlocked 4000 paused_ok \<and> task_status paused_ok = Some Paused \<and> nextTimer paused_ok = 2
   \<and> activeIntervals (snd (cmd_continue cfg0 4000 Unchanged paused_ok)) = {2}
   \<and> activeTimeouts (snd (cmd_continue cfg0 4000 Unchanged paused_ok)) = {3}
   \<and> 1 \<notin> activeTimeouts (run cfg0 [(operator_at 4500, StdoutData ''more'')]
                             (snd (cmd_continue cfg0 4000 Unchanged paused_ok)))
   \<and> step cfg0 (operator_at 700000, QuantumExpiry 1)
         (run cfg0 [(operator_at 4500, StdoutData ''more'')]
            (snd (cmd_continue cfg0 4000 Unchanged paused_ok)))
       = run cfg0 [(operator_at 4500, StdoutData ''more'')]
           (snd (cmd_continue cfg0 4000 Unchanged paused_ok))
   \<and> isUnlocked 5000 paused_nul \<and> task_status paused_nul = Some Paused
   \<and> quiet (snd (cmd_continue cfg0 5000 Unchanged paused_nul))"
proof -
  let ?ok = "task0\<lparr>status := Paused, quantumStartedAt := 2000, lastTail := [''ok''],
                    continuationCount := 1\<rparr>"
  let ?nul = "task0\<lparr>status := Paused, quantumStartedAt := 2000, lastTail := [''ok'', [CHR 0x00]],
                     continuationCount := 1\<rparr>"
  have t: "currentTask (state paused_ok) = Some ?ok"
    unfolding paused_ok_def by (rule burst_with_task) simp_all
  have u: "currentTask (state paused_nul) = Some ?nul"
    unfolding paused_nul_def by (rule burst_with_task) simp_all
  have "[CHR 0x00] \<in> set (slice_from (- 20) (lastTail ?nul))"
    by (simp add: slice_from_def)
  then have s: "spawnThrows paused_nul (shellCommand (buildContinuationPrompt cfg0 ?nul))"
    by (rule nul_reaches_command) simp
  have f: "task_status paused_ok = Some Paused" "unlockedUntil (state paused_ok) = 900000"
    "nextTimer paused_ok = 2"
    "task_status paused_nul = Some Paused" "unlockedUntil (state paused_nul) = 900000"
    unfolding paused_ok_def paused_nul_def by (rule burst_with_facts)+
  show ?thesis
    using continue_starts_fresh_timers [where cfg = cfg0 and evs = "burst_with ''ok''" and p = crashed
        and now = 4000 and d = Unchanged and t = ?ok and n = 1 and e = "operator_at 700000"
        and evs' = "[(operator_at 4500, StdoutData ''more'')]"]
      continue_starts_fresh_timers [where cfg = cfg0
        and evs = "burst_with (''ok'' @ [CHR 0x0A, CHR 0x00])" and p = crashed
        and now = 5000 and d = Unchanged and t = ?nul and n = 0 and e = "operator_at 700000"
        and evs' = "[]"]
    unfolding paused_ok_def [symmetric] paused_nul_def [symmetric] Let_def
    using t u s f spawn_takes_ok
    by (simp add: isUnlocked_def task0_def)
qed

subsection \<open>The continuation count\<close>

lemma count_frames [simp]:
  "count_of (saveState w) = count_of w"
  "count_of (stopTimers w) = count_of w"
  "count_of (startTimers w) = count_of w"
  "count_of (killCurrent sg w) = count_of w"
  "count_of (sendOrEditStatusMessage d w) = count_of w"
  "count_of (set_task t w) = map_option (\<lambda>t. (id_task t, continuationCount t)) t"
  "count_of (pushLine l w) = count_of w"
  by (cases d; simp add: count_of_def option.map_comp comp_def)+

lemma count_fields [simp]:
  "count_of (w\<lparr>outputBuffer := b\<rparr>) = count_of w"
  "count_of (w\<lparr>currentProcess := p\<rparr>) = count_of w"
  "count_of (w\<lparr>lastRequestTime := r\<rparr>) = count_of w"
  "count_of (w\<lparr>activeTimeouts := a\<rparr>) = count_of w"
  "count_of (w\<lparr>noticePending := n\<rparr>) = count_of w"
  "count_of (w\<lparr>diskWritable := k\<rparr>) = count_of w"
  "count_of (w\<lparr>signalled := s\<rparr>) = count_of w"
  "count_of (w\<lparr>state := (state w)\<lparr>unlockedUntil := u\<rparr>\<rparr>) = count_of w"
  by (simp_all add: count_of_def)

lemma count_update:
  "(\<And>t. id_task (f t) = id_task t \<and> continuationCount (f t) = continuationCount t)
     \<Longrightarrow> count_of (update_task f w) = count_of w"
  by (simp add: count_of_def option.map_comp comp_def)

lemma count_lines [simp]:
  "count_of (foldl (\<lambda>v l. if l \<noteq> [] then pushLine (f l) v else v) w ls) = count_of w"
  by (simp add: count_of_def)

lemma count_engine [simp]:
  "count_of (pauseCurrentTask cfg d w) = count_of w"
  "count_of (pauseForQuantumTimeout cfg d w) = count_of w"
  "count_of (on_close cfg code d w) = count_of w"
  "count_of (on_error msg d w) = count_of w"
  "count_of (on_stdout_data tx w) = count_of w"
  "count_of (on_stderr_data tx w) = count_of w"
  "count_of (heartbeat d w) = count_of w"
  "count_of (on_notice d w) = count_of w"
  "count_of (on_shutdown w) = count_of w"
  by (simp_all add: pauseCurrentTask_def pauseForQuantumTimeout_def on_close_def on_error_def
      on_stdout_data_def on_stderr_data_def heartbeat_def on_notice_def on_shutdown_def Let_def
      count_update split: option.splits delivery.splits)

lemma count_stop [simp]:
  "count_of (stopCurrentTask cfg d w) = None"
  "count_of (snd (cmd_cancel w)) = None"
  by (auto simp: stopCurrentTask_def cmd_cancel_def Let_def count_of_def split: option.splits)

lemma count_resume:
  assumes "currentTask (state w) = Some t"
  shows "count_of (snd (resume cfg now d t ok w)) = Some (id_task t, continuationCount t + 1)"
  using resume_common(4,6) [OF assms, of cfg now d ok]
  by (auto simp: count_of_def)

lemma count_create:
  "fst (createTask cfg now d uuid chat body w) = RunUsage \<and> snd (createTask cfg now d uuid chat body w) = w
   \<or> started (fst (createTask cfg now d uuid chat body w))
     \<and> count_of (snd (createTask cfg now d uuid chat body w)) = Some (uuid, 0)"
proof (cases "command_args body = []")
  case True
  then show ?thesis by (simp add: createTask_def)
next
  case False
  let ?t = "newTask cfg now uuid chat (command_args body)"
  have t: "currentTask (state (saveState (set_task (Some ?t) w))) = Some ?t"
    by simp
  show ?thesis
    using False start_common(3,5) [OF t, of cfg now d "command_args body" False]
    by (auto simp: createTask_def Let_def count_of_def newTask_def)
qed

lemma count_run:
  "started (fst (cmd_run cfg now d uuid chat body w))
     \<and> count_of (snd (cmd_run cfg now d uuid chat body w)) = Some (uuid, 0)
   \<or> \<not> started (fst (cmd_run cfg now d uuid chat body w))
     \<and> \<not> continued (fst (cmd_run cfg now d uuid chat body w))
     \<and> count_of (snd (cmd_run cfg now d uuid chat body w)) = count_of w"
  using count_create [of cfg now d uuid chat body "w\<lparr>lastRequestTime := now\<rparr>"]
  by (auto simp: cmd_run_def rateLimitCheck_def split: option.splits)

lemma count_callback:
  "continued (fst (callback_query cfg now d uid dat w))
     \<and> count_of (snd (callback_query cfg now d uid dat w)) = map_option (\<lambda>(i, c). (i, c + 1)) (count_of w)
   \<or> \<not> continued (fst (callback_query cfg now d uid dat w))
     \<and> \<not> started (fst (callback_query cfg now d uid dat w))
     \<and> (count_of (snd (callback_query cfg now d uid dat w)) = count_of w
        \<or> count_of (snd (callback_query cfg now d uid dat w)) = None)"
proof -
  have r: "fst (resume cfg now d t CbContinuing w) = CbContinuing
      \<and> count_of (snd (resume cfg now d t CbContinuing w)) = map_option (\<lambda>(i, c). (i, c + 1)) (count_of w)"
    if "currentTask (state w) = Some t" for t
    using resume_common(1) [OF that, of cfg now d CbContinuing] count_resume [OF that, of cfg now d CbContinuing]
      that by (simp add: count_of_def)
  show ?thesis
    using r by (auto simp: callback_query_def split: option.splits)
qed

lemma count_continue:
  "continued (fst (cmd_continue cfg now d w))
     \<and> count_of (snd (cmd_continue cfg now d w)) = map_option (\<lambda>(i, c). (i, c + 1)) (count_of w)
   \<or> \<not> continued (fst (cmd_continue cfg now d w)) \<and> \<not> started (fst (cmd_continue cfg now d w))
     \<and> snd (cmd_continue cfg now d w) = w"
proof -
  have r: "fst (resume cfg now d t ok w) = ok
      \<and> count_of (snd (resume cfg now d t ok w)) = map_option (\<lambda>(i, c). (i, c + 1)) (count_of w)"
    if "currentTask (state w) = Some t" for t ok
    using resume_common(1) [OF that, of cfg now d ok] count_resume [OF that, of cfg now d ok]
      that by (simp add: count_of_def)
  show ?thesis
    using r by (auto simp: cmd_continue_def split: option.splits)
qed

lemma count_handle:
  "started (fst (handle cfg e ev w))
   \<or> continued (fst (handle cfg e ev w))
     \<and> count_of (snd (handle cfg e ev w)) = map_option (\<lambda>(i, c). (i, c + 1)) (count_of w)
   \<or> \<not> continued (fst (handle cfg e ev w))
     \<and> (count_of (snd (handle cfg e ev w)) = count_of w \<or> count_of (snd (handle cfg e ev w)) = None)"
proof (cases ev)
  case (CmdRun tx)
  then show ?thesis
    using count_run [of cfg "at_time e" "pushed e" "fresh_uuid e" "chat_id e" tx w]
    by (auto simp: handle_def)
next
  case CmdContinue
  then show ?thesis
    using count_continue [of cfg "at_time e" "pushed e" w] by (auto simp: handle_def)
next
  case (CallbackQuery dat)
  then show ?thesis
    using count_callback [of cfg "at_time e" "pushed e" "from_id e" dat w] by (auto simp: handle_def)
qed (auto simp: handle_def cmd_start_def cmd_unlock_def cmd_lock_def cmd_status_def
      cmd_stop_def cmd_cancel_def cmd_pause_def Let_def split: option.splits)


lemma count_run_all:
  "count_of w = Some (i, c) \<Longrightarrow> task_kept cfg evs w \<Longrightarrow>
     count_of (run cfg evs w) = Some (i, c + int (continues cfg evs w))"
proof (induction evs arbitrary: w c)
  case Nil
  then show ?case by simp
next
  case (Cons x evs)
  obtain e ev where x: "x = (e, ev)"
    by (cases x)
  let ?w = "step cfg x w"
  have k: "\<not> started (fst (handle cfg e ev w))" "count_of ?w \<noteq> None" "task_kept cfg evs ?w"
    using Cons.prems(2) x by (simp_all add: count_of_def)
  have "count_of ?w = Some (i, c + (if continued (fst (handle cfg e ev w)) then 1 else 0))"
    using count_handle [of cfg e ev w] k(1,2) Cons.prems(1) x by (auto simp: step_def)
  from Cons.IH [OF this k(3)] show ?case
    using x by simp
qed

lemma restart_crashed_status: "task_status (restart crashed) = Some Paused"
  by (simp add: task_status_def restart_crashed)

lemma session_kept: "task_kept cfg0 session (restart crashed) \<and> continues cfg0 session (restart crashed) = 2"
proof -
  let ?w0 = "restart crashed"
  let ?t0 = "task0\<lparr>status := Paused\<rparr>"
  have h1: "handle cfg0 (operator_at 2000) CmdContinue ?w0 = resume cfg0 2000 Unchanged ?t0 (Continuing 1) ?w0"
    by (simp add: handle_def cmd_continue_def isUnlocked_def restart_crashed task0_def)
  let ?w1 = "snd (resume cfg0 2000 Unchanged ?t0 (Continuing 1) ?w0)"
  have r1: "fst (resume cfg0 2000 Unchanged ?t0 (Continuing 1) ?w0) = Continuing 1"
    "task_status ?w1 = Some Running"
    "map_option continuationCount (currentTask (state ?w1)) = Some 1"
    using resume_common(1,2,4) [OF restart_crashed(1), of cfg0 2000 Unchanged "Continuing 1"]
    by (simp_all add: task0_def)
  have u1: "unlockedUntil (state ?w1) = 900000"
    using resume_common(9) [OF restart_crashed(1), of cfg0 2000 Unchanged "Continuing 1"]
    by (simp add: restart_crashed)
  have h2: "handle cfg0 (operator_at 3000) CmdPause ?w1 = (NoReply, pauseCurrentTask cfg0 Unchanged ?w1)"
    using r1(2) by (simp add: handle_def cmd_pause_def)
  let ?w2 = "pauseCurrentTask cfg0 Unchanged ?w1"
  from r1(2,3) obtain t1 where t1: "currentTask (state ?w1) = Some t1" "status t1 = Running" "continuationCount t1 = 1"
    by (auto simp: task_status_def)
  have t2: "currentTask (state ?w2) = Some (t1\<lparr>status := Paused, lastTail := tail (TAIL_LINES cfg0) (outputBuffer ?w1)\<rparr>)"
    "unlockedUntil (state ?w2) = 900000"
    using t1 u1 by (simp_all add: pauseCurrentTask_def Let_def)
  have h3: "fst (handle cfg0 (operator_at 4000) CmdContinue ?w2) = Continuing 2
     \<and> currentTask (state (snd (handle cfg0 (operator_at 4000) CmdContinue ?w2))) \<noteq> None"
    using resume_common(1,2) [OF t2(1), of cfg0 4000 Unchanged "Continuing 2"] t2 t1
    by (auto simp: handle_def cmd_continue_def isUnlocked_def task_status_def)
  show ?thesis
    using h1 r1 h2 t2 h3 t1
    by (simp add: session_def step_def)
qed

text \<open>
  Claim C9. A task is created with \<open>continuationCount = 0\<close>. Along any run of events
  that keeps the task (none removes it, none starts a new one), the task keeps its
  identifier and its count grows by exactly the number of accepted \<open>continue\<close>
  operations of the run; so it is \<open>N\<close> after \<open>N\<close> of them on a new task and never
  decreases. An event that is not an accepted \<open>continue\<close> or \<open>start\<close> leaves the count
  as it is, unless it removes the task.
\<close>

theorem continuation_count_counts_continues:
  "(started (fst (cmd_run cfg now d uuid chat body w)) \<longrightarrow>
      count_of (snd (cmd_run cfg now d uuid chat body w)) = Some (uuid, 0))
   \<and> (count_of w = Some (i, c) \<and> task_kept cfg evs w \<longrightarrow>
      count_of (run cfg evs w) = Some (i, c + int (continues cfg evs w)))
   \<and> (count_of w = Some (i, c) \<and> \<not> started (fst (handle cfg e ev w))
        \<and> \<not> continued (fst (handle cfg e ev w)) \<longrightarrow>
      count_of (step cfg (e, ev) w) = Some (i, c) \<or> count_of (step cfg (e, ev) w) = None)"
  using count_run [of cfg now d uuid chat body w] count_run_all [of w i c cfg evs]
    count_handle [of cfg e ev w]
  by (auto simp: step_def)

theorem continuation_count_counts_continues_witness: "count_of (restart crashed) = Some (''t1'', 0) \<and> task_kept cfg0 session (restart crashed)
   \<and> count_of (run cfg0 session (restart crashed)) = Some (''t1'', 2)"
  using continuation_count_counts_continues [where w = "restart crashed" and i = "''t1''" and c = 0 and cfg = cfg0 and evs = session]
    session_kept
  by (simp add: count_of_def restart_crashed task0_def)

end
